theory Spec2Isabelle
  imports Main "HOL-Library.AList" "HOL-Library.Word"
begin

section \<open>Python values, exceptions and dictionary access\<close>

text \<open>
  The sync script and the API both handle loosely typed documents: the JSON payloads of
  the upstream service, Python dicts, and the BSON documents of the collection.  One
  datatype covers them.  A dict is an association list (Python dicts keep insertion
  order); lookups use \<open>map_of\<close>, so a list is read as the dict of its first bindings.
  A float is carried as its 64 bits: neither program computes with floats.  A stored
  timestamp is the BSON datetime, milliseconds since the epoch; \<open>JOid\<close> is the
  store's \<open>ObjectId\<close>.
\<close>

datatype json =
    JNull
  | JBool bool
  | JInt int
  | JFloat "64 word"
  | JStr string
  | JArr "json list"
  | JObj "(string \<times> json) list"
  | JDate int
  | JOid nat

type_synonym document = "(string \<times> json) list"

text \<open>
  The exceptions the two programs can meet.  \<open>SystemExit\<close> is what \<open>exit()\<close> raises; it
  is not a subclass of \<open>Exception\<close>, so \<open>except Exception\<close> lets it through.
\<close>

datatype exn =
    KeyError string
  | AttributeError
  | TypeError
  | ValueError
  | JSONDecodeError
  | LibraryError string
  | DuplicateKeyError
  | HTTPException nat string
  | ResponseValidationError
  | SystemExit

definition is_Exception :: "exn \<Rightarrow> bool" where
  "is_Exception e = (e \<noteq> SystemExit)"

definition bind_exn :: "exn + 'a \<Rightarrow> ('a \<Rightarrow> exn + 'b) \<Rightarrow> exn + 'b" where
  "bind_exn m f = (case m of Inl e \<Rightarrow> Inl e | Inr x \<Rightarrow> f x)"

text \<open>\<open>x.get(k, default)\<close>: the value of the key, or the default; only a dict has the
  method.\<close>

definition dict_get :: "document \<Rightarrow> string \<Rightarrow> json \<Rightarrow> json" where
  "dict_get d k dflt = (case map_of d k of None \<Rightarrow> dflt | Some v \<Rightarrow> v)"

fun py_get :: "json \<Rightarrow> string \<Rightarrow> json \<Rightarrow> exn + json" where
  "py_get (JObj d) k dflt = Inr (dict_get d k dflt)"
| "py_get _ k dflt = Inl AttributeError"

text \<open>\<open>x[k]\<close> with a string key: \<open>KeyError\<close> on a dict without the key, \<open>TypeError\<close>
  on every other value.\<close>

fun py_item :: "json \<Rightarrow> string \<Rightarrow> exn + json" where
  "py_item (JObj d) k = (case map_of d k of None \<Rightarrow> Inl (KeyError k) | Some v \<Rightarrow> Inr v)"
| "py_item _ k = Inl TypeError"

text \<open>Truth value of a Python object, as \<open>if x\<close> and \<open>not x\<close> test it.\<close>

fun truthy :: "json \<Rightarrow> bool" where
  "truthy JNull = False"
| "truthy (JBool b) = b"
| "truthy (JInt i) = (i \<noteq> 0)"
| "truthy (JFloat w) = (w \<noteq> 0 \<and> w \<noteq> 0x8000000000000000)"
| "truthy (JStr s) = (s \<noteq> [])"
| "truthy (JArr xs) = (xs \<noteq> [])"
| "truthy (JObj d) = (d \<noteq> [])"
| "truthy (JDate t) = True"
| "truthy (JOid n) = True"

text \<open>\<open>for x in v\<close>: the elements of a list, the keys of a dict, the characters of a
  string; anything else is not iterable.\<close>

fun py_iter :: "json \<Rightarrow> exn + json list" where
  "py_iter (JArr xs) = Inr xs"
| "py_iter (JObj d) = Inr (map (\<lambda>kv. JStr (fst kv)) d)"
| "py_iter (JStr s) = Inr (map (\<lambda>c. JStr [c]) s)"
| "py_iter _ = Inl TypeError"


section \<open>The document store\<close>

text \<open>
  The collection \<open>strava_db.activities\<close>: its documents in natural (insertion) order,
  each with the \<open>_id\<close> the store gave it, the counter the next \<open>_id\<close> comes from, and
  whether the unique index on \<open>id\<close> exists (\<open>initialize_db\<close> of the sync script creates
  it; the API never does).  Only what the two programs use of the driver is modelled:
  equality filters on \<open>id\<close>, \<open>$set\<close>, upsert, insert, skip and limit.  Network and
  encoding failures of the driver are not modelled.
\<close>

record store =
  docs :: "(nat \<times> document) list"
  next_oid :: nat
  unique_index :: bool

definition empty_store :: store where
  "empty_store = \<lparr>docs = [], next_oid = 0, unique_index = False\<rparr>"

text \<open>The index key of a document for the field \<open>id\<close>: a missing field counts as null,
  both for the filter \<open>{"id": v}\<close> and for the unique index.  Keys are compared as
  values of \<open>json\<close>; that the store also equates an integer with the float of the same
  value, and matches a filter against the elements of an array, is left out: the API's
  \<open>id\<close> is an \<open>int\<close> and the upstream \<open>id\<close> an integer.\<close>

definition id_key :: "document \<Rightarrow> json" where
  "id_key d = (case map_of d ''id'' of None \<Rightarrow> JNull | Some v \<Rightarrow> v)"

definition matches_id :: "json \<Rightarrow> nat \<times> document \<Rightarrow> bool" where
  "matches_id v sd = (id_key (snd sd) = v)"

definition id_keys :: "(nat \<times> document) list \<Rightarrow> json list" where
  "id_keys ds = map (\<lambda>sd. id_key (snd sd)) ds"

definition ids_unique :: "store \<Rightarrow> bool" where
  "ids_unique s = distinct (id_keys (docs s))"

text \<open>A stored document as the driver hands it to Python: \<open>_id\<close> first.\<close>

definition as_dict :: "nat \<times> document \<Rightarrow> document" where
  "as_dict sd = (''_id'', JOid (fst sd)) # snd sd"

text \<open>\<open>{"$set": upd}\<close> applied to a document: each field of \<open>upd\<close> overwrites the
  field of that name in place, or is appended; every other field stays.\<close>

definition set_fields :: "document \<Rightarrow> document \<Rightarrow> document" where
  "set_fields upd d = fold (\<lambda>kv. AList.update (fst kv) (snd kv)) upd d"

definition violates_unique :: "store \<Rightarrow> (nat \<times> document) list \<Rightarrow> document \<Rightarrow> bool" where
  "violates_unique s others d = (unique_index s \<and> id_key d \<in> set (id_keys others))"


definition find_one :: "json \<Rightarrow> store \<Rightarrow> document option" where
  "find_one v s = map_option as_dict (List.find (matches_id v) (docs s))"

definition insert_one :: "document \<Rightarrow> store \<Rightarrow> exn + store" where
  "insert_one d s =
     (if violates_unique s (docs s) d then Inl DuplicateKeyError
      else Inr (s\<lparr>docs := docs s @ [(next_oid s, d)], next_oid := Suc (next_oid s)\<rparr>))"

text \<open>\<open>find_one_and_update({"id": v}, {"$set": upd}, return_document=True)\<close>: the first
  match in natural order is updated and returned as it is after the update; no match
  returns \<open>None\<close>.\<close>

definition find_one_and_update :: "json \<Rightarrow> document \<Rightarrow> store \<Rightarrow> exn + (document option \<times> store)" where
  "find_one_and_update v upd s =
     (case List.extract (matches_id v) (docs s) of
        None \<Rightarrow> Inr (None, s)
      | Some (pre, sd, post) \<Rightarrow>
          (let d' = set_fields upd (snd sd) in
           if violates_unique s (pre @ post) d' then Inl DuplicateKeyError
           else Inr (Some (as_dict (fst sd, d')), s\<lparr>docs := pre @ (fst sd, d') # post\<rparr>)))"

text \<open>\<open>update_one({"id": v}, {"$set": upd}, upsert=True)\<close>: as above on a match; with no
  match a new document is inserted, made of the filter's field and the \<open>$set\<close>.\<close>

definition update_one_upsert :: "json \<Rightarrow> document \<Rightarrow> store \<Rightarrow> exn + store" where
  "update_one_upsert v upd s =
     (case find_one_and_update v upd s of
        Inl e \<Rightarrow> Inl e
      | Inr (Some d, s') \<Rightarrow> Inr s'
      | Inr (None, s') \<Rightarrow> insert_one (set_fields upd [(''id'', v)]) s')"


section \<open>The HTTP API (\<open>strava_fast_api.py\<close>)\<close>

text \<open>
  The request body of create and update, as the framework hands it to the handler after
  validation: the pydantic model \<open>Activity\<close>.  Eleven fields are required, nine are
  optional with default \<open>None\<close>.
\<close>

record Activity =
  id_field :: int
  name :: string
  type_field :: string
  distance :: "64 word"
  moving_time :: int
  elapsed_time :: int
  total_elevation_gain :: "64 word"
  sport_type :: string
  start_date :: string
  start_date_local :: string
  timezone :: string
  map_field :: "document option"
  polyline :: "string option"
  decoded_polyline :: "64 word list list option"
  average_speed :: "64 word option"
  max_speed :: "64 word option"
  average_heartrate :: "64 word option"
  max_heartrate :: "64 word option"
  calories :: "64 word option"
  photos :: "string list option"

definition optional :: "('a \<Rightarrow> json) \<Rightarrow> 'a option \<Rightarrow> json" where
  "optional f x = (case x of None \<Rightarrow> JNull | Some v \<Rightarrow> f v)"

text \<open>\<open>activity.dict()\<close>: every field of the model, in declaration order, an unset
  optional field as \<open>None\<close>.\<close>

definition dict :: "Activity \<Rightarrow> document" where
  "dict a =
     [(''id'', JInt (id_field a)),
      (''name'', JStr (name a)),
      (''type'', JStr (type_field a)),
      (''distance'', JFloat (distance a)),
      (''moving_time'', JInt (moving_time a)),
      (''elapsed_time'', JInt (elapsed_time a)),
      (''total_elevation_gain'', JFloat (total_elevation_gain a)),
      (''sport_type'', JStr (sport_type a)),
      (''start_date'', JStr (start_date a)),
      (''start_date_local'', JStr (start_date_local a)),
      (''timezone'', JStr (timezone a)),
      (''map'', optional JObj (map_field a)),
      (''polyline'', optional JStr (polyline a)),
      (''decoded_polyline'', optional (\<lambda>ps. JArr (map (\<lambda>p. JArr (map JFloat p)) ps)) (decoded_polyline a)),
      (''average_speed'', optional JFloat (average_speed a)),
      (''max_speed'', optional JFloat (max_speed a)),
      (''average_heartrate'', optional JFloat (average_heartrate a)),
      (''max_heartrate'', optional JFloat (max_heartrate a)),
      (''calories'', optional JFloat (calories a)),
      (''photos'', optional (\<lambda>ps. JArr (map JStr ps)) (photos a))]"

text \<open>\<open>str(ObjectId)\<close>: 24 hexadecimal digits.\<close>

definition hex_digit :: "nat \<Rightarrow> char" where
  "hex_digit n = ''0123456789abcdef'' ! (n mod 16)"

fun hex_of :: "nat \<Rightarrow> nat \<Rightarrow> string" where
  "hex_of 0 n = []"
| "hex_of (Suc k) n = hex_of k (n div 16) @ [hex_digit n]"

definition str_oid :: "nat \<Rightarrow> string" where
  "str_oid n = hex_of 24 n"

text \<open>\<open>create_activity\<close>: each handler returns its result, or the exception it raised,
  together with the collection as it leaves it.\<close>

definition create_activity :: "Activity \<Rightarrow> store \<Rightarrow> (exn + Activity) \<times> store" where
  "create_activity activity s =
     (case find_one (JInt (id_field activity)) s of
        Some d \<Rightarrow> (Inl (HTTPException 400 ''Activity with this ID already exists''), s)
      | None \<Rightarrow>
          (case insert_one (dict activity) s of
             Inl e \<Rightarrow> (Inl e, s)
           | Inr s' \<Rightarrow> (Inr activity, s')))"

text \<open>\<open>update_activity\<close>: the filter is the path's id, the \<open>$set\<close> is the whole body,
  whose own \<open>id\<close> the handler does not compare with the path's.\<close>

definition update_activity :: "int \<Rightarrow> Activity \<Rightarrow> store \<Rightarrow> (exn + document) \<times> store" where
  "update_activity activity_id activity s =
     (case find_one_and_update (JInt activity_id) (dict activity) s of
        Inl e \<Rightarrow> (Inl e, s)
      | Inr (None, s') \<Rightarrow> (Inl (HTTPException 404 ''Activity not found''), s')
      | Inr (Some result, s') \<Rightarrow>
          (case map_of result ''_id'' of
             Some (JOid n) \<Rightarrow> (Inr (AList.update ''_id'' (JStr (str_oid n)) result), s')
           | _ \<Rightarrow> (Inl (KeyError ''_id''), s')))"

text \<open>\<open>jsonable_encoder\<close> on the values a stored document can hold: timestamps become
  ISO-8601 strings (\<open>isoformat\<close> is \<open>datetime.isoformat\<close> on the decoded BSON datetime), lists
  and dicts are encoded element by element, an \<open>ObjectId\<close> is refused.\<close>

fun sequence_exn :: "(exn + 'a) list \<Rightarrow> exn + 'a list" where
  "sequence_exn [] = Inr []"
| "sequence_exn (m # ms) =
     bind_exn m (\<lambda>x. bind_exn (sequence_exn ms) (\<lambda>xs. Inr (x # xs)))"

definition keyed :: "string \<times> (exn + json) \<Rightarrow> exn + (string \<times> json)" where
  "keyed km = bind_exn (snd km) (\<lambda>v. Inr (fst km, v))"

primrec jsonable_encoder :: "(int \<Rightarrow> string) \<Rightarrow> json \<Rightarrow> exn + json" where
  "jsonable_encoder isoformat JNull = Inr JNull"
| "jsonable_encoder isoformat (JBool b) = Inr (JBool b)"
| "jsonable_encoder isoformat (JInt i) = Inr (JInt i)"
| "jsonable_encoder isoformat (JFloat w) = Inr (JFloat w)"
| "jsonable_encoder isoformat (JStr s) = Inr (JStr s)"
| "jsonable_encoder isoformat (JArr xs) =
     bind_exn (sequence_exn (map (jsonable_encoder isoformat) xs)) (\<lambda>ys. Inr (JArr ys))"
| "jsonable_encoder isoformat (JObj d) =
     bind_exn (sequence_exn (map keyed (map (map_prod id (jsonable_encoder isoformat)) d)))
       (\<lambda>d'. Inr (JObj d'))"
| "jsonable_encoder isoformat (JDate t) = Inr (JStr (isoformat t))"
| "jsonable_encoder isoformat (JOid n) = Inl ValueError"

text \<open>The body of the loop of \<open>get_activities\<close> on one document of the cursor.\<close>

definition isoformat_field :: "(int \<Rightarrow> string) \<Rightarrow> string \<Rightarrow> document \<Rightarrow> document" where
  "isoformat_field isoformat k activity =
     (case map_of activity k of
        Some (JDate t) \<Rightarrow> AList.update k (JStr (isoformat t)) activity
      | _ \<Rightarrow> activity)"

definition shape_activity :: "(int \<Rightarrow> string) \<Rightarrow> bool \<Rightarrow> nat \<times> document \<Rightarrow> document" where
  "shape_activity isoformat include_polyline sd =
     (let activity = AList.update ''_id'' (JStr (str_oid (fst sd))) (as_dict sd);
          activity = isoformat_field isoformat ''start_date'' activity;
          activity = isoformat_field isoformat ''start_date_local'' activity
      in if \<not> include_polyline then AList.delete ''decoded_polyline'' activity else activity)"

text \<open>\<open>collection.find().skip(offset)\<close>, with \<open>.limit(limit)\<close> when a limit is given.\<close>

definition find_page :: "nat \<Rightarrow> nat option \<Rightarrow> store \<Rightarrow> (nat \<times> document) list" where
  "find_page offset limit s =
     (case limit of None \<Rightarrow> drop offset (docs s) | Some n \<Rightarrow> take n (drop offset (docs s)))"

text \<open>The body of \<open>get_activities\<close>: what the function returns to the framework.\<close>

definition get_activities_body ::
  "(int \<Rightarrow> string) \<Rightarrow> nat option \<Rightarrow> nat \<Rightarrow> bool \<Rightarrow> store \<Rightarrow> exn + json" where
  "get_activities_body isoformat limit offset include_polyline s =
     jsonable_encoder isoformat
       (JArr (map (\<lambda>sd. JObj (shape_activity isoformat include_polyline sd))
                  (find_page offset limit s)))"

text \<open>
  The decorator \<open>@app.get("/activities", response_model=List[Activity])\<close>: the framework
  validates what the function returns against the declared model and sends the validated
  model, not the returned value.  Each item is rebuilt with exactly the fields of
  \<open>Activity\<close>, in declaration order: a required field must be there and not null; an
  optional field that is missing or null is sent as null; keys outside the model
  (\<open>_id\<close>, \<open>gear\<close>, \<open>raw_data\<close> and so on) are dropped.  How one non-null value is checked
  and converted for a field type is the validation library's business and is a
  parameter: \<open>validate t v\<close> is the value sent, \<open>None\<close> when \<open>v\<close> is refused.  A refused
  item fails the request.
\<close>

datatype ftype = T_int | T_float | T_str | T_dict | T_list_list_float | T_list_str

text \<open>The fields of the class \<open>Activity\<close>: name, type, and whether the field is required.\<close>

definition Activity_fields :: "(string \<times> ftype \<times> bool) list" where
  "Activity_fields =
     [(''id'', T_int, True),
      (''name'', T_str, True),
      (''type'', T_str, True),
      (''distance'', T_float, True),
      (''moving_time'', T_int, True),
      (''elapsed_time'', T_int, True),
      (''total_elevation_gain'', T_float, True),
      (''sport_type'', T_str, True),
      (''start_date'', T_str, True),
      (''start_date_local'', T_str, True),
      (''timezone'', T_str, True),
      (''map'', T_dict, False),
      (''polyline'', T_str, False),
      (''decoded_polyline'', T_list_list_float, False),
      (''average_speed'', T_float, False),
      (''max_speed'', T_float, False),
      (''average_heartrate'', T_float, False),
      (''max_heartrate'', T_float, False),
      (''calories'', T_float, False),
      (''photos'', T_list_str, False)]"

definition response_field ::
  "(ftype \<Rightarrow> json \<Rightarrow> json option) \<Rightarrow> document \<Rightarrow> string \<times> ftype \<times> bool \<Rightarrow> exn + (string \<times> json)" where
  "response_field validate item f =
     (let k = fst f; t = fst (snd f); required = snd (snd f); v = dict_get item k JNull
      in if v = JNull then
           (if required then Inl ResponseValidationError else Inr (k, JNull))
         else (case validate t v of
                 None \<Rightarrow> Inl ResponseValidationError
               | Some v' \<Rightarrow> Inr (k, v')))"

definition response_model_Activity ::
  "(ftype \<Rightarrow> json \<Rightarrow> json option) \<Rightarrow> json \<Rightarrow> exn + json" where
  "response_model_Activity validate item =
     (case item of
        JObj d \<Rightarrow>
          bind_exn (sequence_exn (map (response_field validate d) Activity_fields))
            (\<lambda>fields. Inr (JObj fields))
      | _ \<Rightarrow> Inl ResponseValidationError)"

definition response_model_List_Activity ::
  "(ftype \<Rightarrow> json \<Rightarrow> json option) \<Rightarrow> json \<Rightarrow> exn + json" where
  "response_model_List_Activity validate content =
     (case content of
        JArr items \<Rightarrow>
          bind_exn (sequence_exn (map (response_model_Activity validate) items))
            (\<lambda>xs. Inr (JArr xs))
      | _ \<Rightarrow> Inl ResponseValidationError)"

text \<open>\<open>get_activities\<close> as the endpoint serves it.  The bounds of
  \<open>Query(None, ge=1, le=1000)\<close> and \<open>Query(0, ge=0)\<close> are checked before the function
  runs, and a request outside them is answered 422; then the function body; then the
  response model.  The value is the body of the response.\<close>

definition get_activities ::
  "(ftype \<Rightarrow> json \<Rightarrow> json option) \<Rightarrow> (int \<Rightarrow> string) \<Rightarrow> int option \<Rightarrow> int \<Rightarrow> bool \<Rightarrow> store
     \<Rightarrow> exn + json" where
  "get_activities validate isoformat limit offset include_polyline s =
     (if (case limit of None \<Rightarrow> False | Some l \<Rightarrow> l < 1 \<or> 1000 < l) \<or> offset < 0
      then Inl (HTTPException 422 ''validation error'')
      else bind_exn
             (get_activities_body isoformat (map_option nat limit) (nat offset)
                include_polyline s)
             (response_model_List_Activity validate))"


section \<open>The sync script (\<open>strava_db_sync_mongodb_atlas.py\<close>)\<close>

text \<open>
  The library functions the script calls are parameters: \<open>polyline.decode\<close>, and
  \<open>datetime.strptime\<close> with each of the two formats (\<open>"%Y-%m-%dT%H:%M:%SZ"\<close> and
  \<open>"%Y-%m-%dT%H:%M:%S%z"\<close>), whose result is taken as the BSON datetime the driver
  stores, \<open>None\<close> when the string does not match the format.
\<close>

record pylib =
  polyline_decode :: "json \<Rightarrow> exn + json"
  strptime_utc :: "string \<Rightarrow> int option"
  strptime_offset :: "string \<Rightarrow> int option"

definition strptime :: "(string \<Rightarrow> int option) \<Rightarrow> json \<Rightarrow> exn + json" where
  "strptime parse x =
     (case x of
        JStr s \<Rightarrow> (case parse s of None \<Rightarrow> Inl ValueError | Some t \<Rightarrow> Inr (JDate t))
      | _ \<Rightarrow> Inl TypeError)"

text \<open>The upstream service: the answer of the token endpoint to the refresh request, and
  the answer of the activity list to a request with a bearer token, a page number and a
  page size.  A response has a status and a body, \<open>None\<close> when the body is not JSON.\<close>

record response =
  status_code :: int
  body :: "json option"

record upstream =
  token_endpoint :: response
  activities_endpoint :: "json \<Rightarrow> nat \<Rightarrow> nat \<Rightarrow> response"

text \<open>What the process does that can be observed: the requests it sends and the lines it
  logs, in order.\<close>

datatype event =
    PostToken
  | GetActivities json nat nat
  | Info_initialized
  | Info_starting
  | Info_refreshing
  | Info_refreshed
  | Error_refreshing int
  | Info_fetching_page nat
  | Error_fetching int
  | Info_saved json json
  | Error_saving json exn
  | Info_no_more
  | Info_complete

text \<open>The state of the process: the collection, the global \<open>STRAVA_ACCESS_TOKEN\<close>
  (\<open>None\<close> at start), and the events so far.\<close>

record sync_state =
  db :: store
  access_token :: json
  events :: "event list"

definition emit :: "event \<Rightarrow> sync_state \<Rightarrow> sync_state" where
  "emit ev st = st\<lparr>events := events st @ [ev]\<rparr>"


text \<open>\<open>refresh_access_token\<close>: one POST; status 200 stores the token of the body, any
  other status logs and calls \<open>exit()\<close>.\<close>

definition refresh_access_token :: "upstream \<Rightarrow> sync_state \<Rightarrow> exn option \<times> sync_state" where
  "refresh_access_token up st =
     (let st = emit PostToken (emit Info_refreshing st);
          response = token_endpoint up
      in if status_code response = 200 then
           (case body response of
              None \<Rightarrow> (Some JSONDecodeError, st)
            | Some token_data \<Rightarrow>
                (case py_item token_data ''access_token'' of
                   Inl e \<Rightarrow> (Some e, st)
                 | Inr t \<Rightarrow> (None, emit Info_refreshed (st\<lparr>access_token := t\<rparr>))))
         else (Some SystemExit, emit (Error_refreshing (status_code response)) st))"

text \<open>\<open>fetch_activities\<close>: one GET; status 200 returns the decoded body, any other
  status logs and returns the empty list.\<close>

definition fetch_activities :: "upstream \<Rightarrow> nat \<Rightarrow> nat \<Rightarrow> sync_state \<Rightarrow> (exn + json) \<times> sync_state" where
  "fetch_activities up page per_page st =
     (let response = activities_endpoint up (access_token st) page per_page;
          st = emit (GetActivities (access_token st) page per_page) st
      in if status_code response = 200 then
           (case body response of
              None \<Rightarrow> (Inl JSONDecodeError, st)
            | Some activities \<Rightarrow> (Inr activities, st))
         else (Inr (JArr []), emit (Error_fetching (status_code response)) st))"

text \<open>The document \<open>save_activities_to_db\<close> builds from one upstream record: the
  statements of the \<open>try\<close> block up to the dict literal, in evaluation order.\<close>

definition activity_document :: "pylib \<Rightarrow> json \<Rightarrow> exn + document" where
  "activity_document lib activity =
     bind_exn (py_get activity ''map'' (JObj [])) (\<lambda>map_data.
     bind_exn (py_get map_data ''summary_polyline'' JNull) (\<lambda>polyline_data.
     bind_exn (if truthy polyline_data then polyline_decode lib polyline_data else Inr JNull)
       (\<lambda>decoded.
     bind_exn (py_item activity ''id'') (\<lambda>v_id.
     bind_exn (py_item activity ''name'') (\<lambda>v_name.
     bind_exn (py_item activity ''type'') (\<lambda>v_type.
     bind_exn (py_get activity ''distance'' JNull) (\<lambda>v_distance.
     bind_exn (py_get activity ''moving_time'' JNull) (\<lambda>v_moving_time.
     bind_exn (py_get activity ''elapsed_time'' JNull) (\<lambda>v_elapsed_time.
     bind_exn (py_get activity ''total_elevation_gain'' JNull) (\<lambda>v_total_elevation_gain.
     bind_exn (py_get activity ''sport_type'' JNull) (\<lambda>v_sport_type.
     bind_exn (py_item activity ''start_date'') (\<lambda>s_start_date.
     bind_exn (strptime (strptime_utc lib) s_start_date) (\<lambda>v_start_date.
     bind_exn (py_item activity ''start_date_local'') (\<lambda>s_start_date_local.
     bind_exn (strptime (strptime_offset lib) s_start_date_local) (\<lambda>v_start_date_local.
     bind_exn (py_get activity ''timezone'' JNull) (\<lambda>v_timezone.
     bind_exn (py_get activity ''gear'' JNull) (\<lambda>v_gear.
     bind_exn (py_get activity ''average_speed'' JNull) (\<lambda>v_average_speed.
     bind_exn (py_get activity ''max_speed'' JNull) (\<lambda>v_max_speed.
     bind_exn (py_get activity ''average_cadence'' JNull) (\<lambda>v_average_cadence.
     bind_exn (py_get activity ''average_heartrate'' JNull) (\<lambda>v_average_heartrate.
     bind_exn (py_get activity ''max_heartrate'' JNull) (\<lambda>v_max_heartrate.
     bind_exn (py_get activity ''calories'' JNull) (\<lambda>v_calories.
       Inr [(''id'', v_id),
            (''name'', v_name),
            (''type'', v_type),
            (''distance'', v_distance),
            (''moving_time'', v_moving_time),
            (''elapsed_time'', v_elapsed_time),
            (''total_elevation_gain'', v_total_elevation_gain),
            (''sport_type'', v_sport_type),
            (''start_date'', v_start_date),
            (''start_date_local'', v_start_date_local),
            (''timezone'', v_timezone),
            (''map'', map_data),
            (''polyline'', polyline_data),
            (''decoded_polyline'', decoded),
            (''gear'', v_gear),
            (''average_speed'', v_average_speed),
            (''max_speed'', v_max_speed),
            (''average_cadence'', v_average_cadence),
            (''average_heartrate'', v_average_heartrate),
            (''max_heartrate'', v_max_heartrate),
            (''calories'', v_calories),
            (''raw_data'', activity)])))))))))))))))))))))))"

text \<open>The \<open>except Exception\<close> clause: its log line reads \<open>activity['id']\<close> again, outside
  any \<open>try\<close>, so a failure of that read leaves the function.\<close>

definition except_clause :: "json \<Rightarrow> exn \<Rightarrow> sync_state \<Rightarrow> exn option \<times> sync_state" where
  "except_clause activity e st =
     (if is_Exception e then
        (case py_item activity ''id'' of
           Inl e' \<Rightarrow> (Some e', st)
         | Inr v_id \<Rightarrow> (None, emit (Error_saving v_id e) st))
      else (Some e, st))"

text \<open>One iteration of the loop of \<open>save_activities_to_db\<close>: the \<open>try\<close> block (build the
  document, upsert it, log) and its handler.\<close>

definition save_activity :: "pylib \<Rightarrow> json \<Rightarrow> sync_state \<Rightarrow> exn option \<times> sync_state" where
  "save_activity lib activity st =
     (case activity_document lib activity of
        Inl e \<Rightarrow> except_clause activity e st
      | Inr doc \<Rightarrow>
     (case py_item activity ''id'' of
        Inl e \<Rightarrow> except_clause activity e st
      | Inr v_id \<Rightarrow>
     (case update_one_upsert v_id doc (db st) of
        Inl e \<Rightarrow> except_clause activity e st
      | Inr s' \<Rightarrow>
     (case py_item activity ''id'' of
        Inl e \<Rightarrow> except_clause activity e (st\<lparr>db := s'\<rparr>)
      | Inr l_id \<Rightarrow>
     (case py_item activity ''name'' of
        Inl e \<Rightarrow> except_clause activity e (st\<lparr>db := s'\<rparr>)
      | Inr l_name \<Rightarrow> (None, emit (Info_saved l_id l_name) (st\<lparr>db := s'\<rparr>)))))))"

fun save_loop :: "pylib \<Rightarrow> json list \<Rightarrow> sync_state \<Rightarrow> exn option \<times> sync_state" where
  "save_loop lib [] st = (None, st)"
| "save_loop lib (activity # rest) st =
     (case save_activity lib activity st of
        (Some e, st') \<Rightarrow> (Some e, st')
      | (None, st') \<Rightarrow> save_loop lib rest st')"

text \<open>\<open>save_activities_to_db\<close>.  The connection to the store is taken as made.\<close>

definition save_activities_to_db :: "pylib \<Rightarrow> json \<Rightarrow> sync_state \<Rightarrow> exn option \<times> sync_state" where
  "save_activities_to_db lib activities st =
     (case py_iter activities of
        Inl e \<Rightarrow> (Some e, st)
      | Inr records \<Rightarrow> save_loop lib records st)"

text \<open>The \<open>while True\<close> loop of \<open>sync_activities\<close>, from a given page on.  It need not
  end: the result is \<open>None\<close> when it does not.\<close>

partial_function (option) fetch_loop ::
  "pylib \<Rightarrow> upstream \<Rightarrow> nat \<Rightarrow> nat \<Rightarrow> sync_state \<Rightarrow> (exn option \<times> sync_state) option" where
  "fetch_loop lib up per_page page st =
     (case fetch_activities up page per_page (emit (Info_fetching_page page) st) of
        (Inl e, st1) \<Rightarrow> Some (Some e, st1)
      | (Inr activities, st1) \<Rightarrow>
          if \<not> truthy activities then Some (None, emit Info_no_more st1)
          else (case save_activities_to_db lib activities st1 of
                  (Some e, st2) \<Rightarrow> Some (Some e, st2)
                | (None, st2) \<Rightarrow> fetch_loop lib up per_page (page + 1) st2))"

text \<open>\<open>sync_activities\<close>: one cycle.\<close>

definition sync_activities ::
  "pylib \<Rightarrow> upstream \<Rightarrow> nat \<Rightarrow> sync_state \<Rightarrow> (exn option \<times> sync_state) option" where
  "sync_activities lib up per_page st =
     (case refresh_access_token up (emit Info_starting st) of
        (Some e, st1) \<Rightarrow> Some (Some e, st1)
      | (None, st1) \<Rightarrow>
          (case fetch_loop lib up per_page 1 st1 of
             None \<Rightarrow> None
           | Some (Some e, st2) \<Rightarrow> Some (Some e, st2)
           | Some (None, st2) \<Rightarrow> Some (None, emit Info_complete st2)))"

section \<open>The specification's pagination\<close>


section \<open>Field names and example data\<close>

text \<open>The field names of the document the sync script builds, and the concrete
  values at which the theorems below are evaluated.  \<open>example_lib\<close> stands in for the
  three library functions at the strings the examples use; \<open>example_upstream\<close> is an
  upstream with two pages of one activity each, and \<open>example_denied\<close> one whose token
  endpoint refuses.\<close>

definition activity_keys :: "string list" where
  "activity_keys = [''id'', ''name'', ''type'', ''distance'', ''moving_time'', ''elapsed_time'',
     ''total_elevation_gain'', ''sport_type'', ''start_date'', ''start_date_local'', ''timezone'',
     ''map'', ''polyline'', ''decoded_polyline'', ''gear'', ''average_speed'', ''max_speed'',
     ''average_cadence'', ''average_heartrate'', ''max_heartrate'', ''calories'', ''raw_data'']"

definition example_activity :: "int \<Rightarrow> Activity" where
  "example_activity i =
     \<lparr>id_field = i, name = ''Lunch Ride'', type_field = ''Ride'', distance = 0,
      moving_time = 3600, elapsed_time = 3700, total_elevation_gain = 0,
      sport_type = ''Ride'', start_date = ''2024-05-01T10:00:00Z'',
      start_date_local = ''2024-05-01T12:00:00Z'', timezone = ''Europe/Paris'',
      map_field = None, polyline = None, decoded_polyline = None, average_speed = None,
      max_speed = None, average_heartrate = None, max_heartrate = None, calories = None,
      photos = Some [''p1.jpg'']\<rparr>"

definition example_lib :: pylib where
  "example_lib =
     \<lparr>polyline_decode = (\<lambda>x. if x = JStr ''_p~iF~ps|U''
          then Inr (JArr [JArr [JFloat 0x4043400000000000, JFloat 0xC05E0CCCCCCCCCCD]])
          else Inl (LibraryError ''polyline'')),
      strptime_utc = (\<lambda>s. if s = ''2024-05-01T10:00:00Z'' then Some 1714557600000 else None),
      strptime_offset = (\<lambda>s. if s = ''2024-05-01T12:00:00Z'' then Some 1714564800000 else None)\<rparr>"

definition example_fields :: "int \<Rightarrow> string \<Rightarrow> document" where
  "example_fields i n =
     [(''id'', JInt i), (''name'', JStr n), (''type'', JStr ''Ride''),
      (''start_date'', JStr ''2024-05-01T10:00:00Z''),
      (''start_date_local'', JStr ''2024-05-01T12:00:00Z''),
      (''gear'', JStr ''b12345'')]"

definition example_record :: "int \<Rightarrow> string \<Rightarrow> json" where
  "example_record i n = JObj (example_fields i n)"

definition example_indoor_fields :: document where
  "example_indoor_fields =
     [(''id'', JInt 9), (''name'', JStr ''Yoga''), (''type'', JStr ''Yoga''),
      (''start_date'', JStr ''2024-05-01T10:00:00Z''),
      (''start_date_local'', JStr ''2024-05-01T12:00:00Z''),
      (''map'', JObj [(''id'', JStr ''a9''), (''summary_polyline'', JStr [])])]"

definition example_store :: store where
  "example_store =
     \<lparr>docs = [(0, dict (example_activity 1)), (1, dict (example_activity 2))],
      next_oid = 2, unique_index = True\<rparr>"

definition example_state :: "store \<Rightarrow> sync_state" where
  "example_state s = \<lparr>db = s, access_token = JNull, events = []\<rparr>"

definition example_document :: "int \<Rightarrow> string \<Rightarrow> document" where
  "example_document i n =
     [(''id'', JInt i), (''name'', JStr n), (''type'', JStr ''Ride''),
      (''distance'', JNull), (''moving_time'', JNull), (''elapsed_time'', JNull),
      (''total_elevation_gain'', JNull), (''sport_type'', JNull),
      (''start_date'', JDate 1714557600000), (''start_date_local'', JDate 1714564800000),
      (''timezone'', JNull), (''map'', JObj []), (''polyline'', JNull),
      (''decoded_polyline'', JNull), (''gear'', JStr ''b12345''),
      (''average_speed'', JNull), (''max_speed'', JNull), (''average_cadence'', JNull),
      (''average_heartrate'', JNull), (''max_heartrate'', JNull), (''calories'', JNull),
      (''raw_data'', example_record i n)]"

definition example_upstream :: upstream where
  "example_upstream =
     \<lparr>token_endpoint = \<lparr>status_code = 200, body = Some (JObj [(''access_token'', JStr ''tok1'')])\<rparr>,
      activities_endpoint = (\<lambda>tok page per_page.
         if tok = JStr ''tok1'' \<and> page = 1
           then \<lparr>status_code = 200, body = Some (JArr [example_record 1 ''One''])\<rparr>
         else if tok = JStr ''tok1'' \<and> page = 2
           then \<lparr>status_code = 200, body = Some (JArr [example_record 2 ''Two''])\<rparr>
         else \<lparr>status_code = 500, body = None\<rparr>)\<rparr>"

definition example_denied :: upstream where
  "example_denied = example_upstream\<lparr>token_endpoint := \<lparr>status_code = 401, body = None\<rparr>\<rparr>"

text \<open>For the list endpoint: \<open>example_validate\<close> accepts a value of the field's type
  as it is and refuses every other value; \<open>example_collection\<close> holds five documents as
  the API's create stores them, each with a geometry; \<open>example_encoded k\<close> is what the
  function returns for document \<open>k\<close> without \<open>include_polyline\<close>, and
  \<open>example_served k\<close> the item of the response.  \<open>example_route_fields\<close> is an upstream
  record with a polyline that \<open>example_lib\<close> decodes, \<open>example_route_document\<close> the
  document built from it.\<close>

definition example_validate :: "ftype \<Rightarrow> json \<Rightarrow> json option" where
  "example_validate t v =
     (case (t, v) of
        (T_int, JInt i) \<Rightarrow> Some v
      | (T_float, JFloat w) \<Rightarrow> Some v
      | (T_str, JStr x) \<Rightarrow> Some v
      | (T_dict, JObj d) \<Rightarrow> Some v
      | (T_list_list_float, JArr xs) \<Rightarrow> Some v
      | (T_list_str, JArr xs) \<Rightarrow> Some v
      | _ \<Rightarrow> None)"

definition example_route_activity :: "int \<Rightarrow> Activity" where
  "example_route_activity i =
     (example_activity i)\<lparr>decoded_polyline :=
        Some [[0x4043400000000000, 0xC05E0CCCCCCCCCCD]], photos := None\<rparr>"

definition example_stored :: "nat \<Rightarrow> nat \<times> document" where
  "example_stored k = (k, dict (example_route_activity (100 + int k)))"

definition example_served :: "nat \<Rightarrow> json" where
  "example_served k =
     JObj (dict ((example_route_activity (100 + int k))\<lparr>decoded_polyline := None\<rparr>))"

definition example_collection :: store where
  "example_collection =
     \<lparr>docs = [example_stored 1, example_stored 2, example_stored 3, example_stored 4,
              example_stored 5],
      next_oid = 6, unique_index = True\<rparr>"

definition example_route_fields :: document where
  "example_route_fields =
     [(''id'', JInt 11), (''name'', JStr ''Route''), (''type'', JStr ''Ride''),
      (''start_date'', JStr ''2024-05-01T10:00:00Z''),
      (''start_date_local'', JStr ''2024-05-01T12:00:00Z''),
      (''map'', JObj [(''summary_polyline'', JStr ''_p~iF~ps|U'')])]"

definition example_route_document :: document where
  "example_route_document =
     [(''id'', JInt 11), (''name'', JStr ''Route''), (''type'', JStr ''Ride''),
      (''distance'', JNull), (''moving_time'', JNull), (''elapsed_time'', JNull),
      (''total_elevation_gain'', JNull), (''sport_type'', JNull),
      (''start_date'', JDate 1714557600000), (''start_date_local'', JDate 1714564800000),
      (''timezone'', JNull), (''map'', JObj [(''summary_polyline'', JStr ''_p~iF~ps|U'')]),
      (''polyline'', JStr ''_p~iF~ps|U''),
      (''decoded_polyline'', JArr [JArr [JFloat 0x4043400000000000, JFloat 0xC05E0CCCCCCCCCCD]]),
      (''gear'', JNull),
      (''average_speed'', JNull), (''max_speed'', JNull), (''average_cadence'', JNull),
      (''average_heartrate'', JNull), (''max_heartrate'', JNull), (''calories'', JNull),
      (''raw_data'', JObj example_route_fields)]"

definition example_encoded :: "nat \<Rightarrow> json" where
  "example_encoded k =
     JObj ((''_id'', JStr (str_oid k))
           # AList.delete ''decoded_polyline'' (dict (example_route_activity (100 + int k))))"

section \<open>Lemmas about documents and the store\<close>

lemma bind_exn_simps [simp]:
  "bind_exn (Inl e) f = Inl e"
  "bind_exn (Inr x) f = f x"
  by (simp_all add: bind_exn_def)

lemma bind_exn_eq_Inr: "bind_exn m f = Inr y \<longleftrightarrow> (\<exists>x. m = Inr x \<and> f x = Inr y)"
  by (cases m) simp_all

lemma map_of_set_fields_rev: "map_of (set_fields upd d) = map_of d ++ map_of (rev upd)"
  unfolding set_fields_def
  by (induction upd arbitrary: d) (simp_all add: update_conv')

lemma map_of_rev_distinct: "distinct (map fst xs) \<Longrightarrow> map_of (rev xs) = map_of xs"
  by (rule iffD2 [OF map_of_inject_set]) (simp_all add: rev_map [symmetric])

lemma map_of_set_fields:
  "distinct (map fst upd) \<Longrightarrow> map_of (set_fields upd d) = map_of d ++ map_of upd"
  by (simp add: map_of_set_fields_rev map_of_rev_distinct)

lemma id_key_set_fields:
  "distinct (map fst upd) \<Longrightarrow> map_of upd ''id'' = Some v \<Longrightarrow> id_key (set_fields upd d) = v"
  by (simp add: id_key_def map_of_set_fields)

lemma distinct_activity_keys: "distinct activity_keys"
  by (simp add: activity_keys_def)

lemma activity_document_dict:
  "activity_document lib activity = Inr doc \<Longrightarrow> \<exists>d. activity = JObj d"
  by (cases activity) (simp_all add: activity_document_def)

lemma activity_document_keys:
  "activity_document lib activity = Inr doc \<Longrightarrow> map fst doc = activity_keys"
  by (cases activity) (auto simp: activity_document_def bind_exn_eq_Inr activity_keys_def)

lemma activity_document_id:
  "activity_document lib activity = Inr doc \<Longrightarrow> py_item activity ''id'' = Inr (id_key doc)"
  by (cases activity) (auto simp: activity_document_def bind_exn_eq_Inr id_key_def)

lemma dict_keys: "distinct (map fst (dict a))"
  by (simp add: dict_def)

lemma dict_id: "map_of (dict a) ''id'' = Some (JInt (id_field a))"
  by (simp add: dict_def)

lemma id_keys_simps [simp]:
  "id_keys [] = []"
  "id_keys (sd # ds) = id_key (snd sd) # id_keys ds"
  "id_keys (ds @ ds') = id_keys ds @ id_keys ds'"
  by (simp_all add: id_keys_def)

lemma find_one_and_update_nomatch:
  "v \<notin> set (id_keys (docs s)) \<Longrightarrow> find_one_and_update v upd s = Inr (None, s)"
proof -
  assume "v \<notin> set (id_keys (docs s))"
  then have "List.extract (matches_id v) (docs s) = None"
    by (auto simp: extract_None_iff matches_id_def id_keys_def)
  then show ?thesis by (simp add: find_one_and_update_def)
qed

lemma find_one_and_update_match:
  assumes "docs s = pre @ (oid, f) # post"
    and "v \<notin> set (id_keys pre)" and "id_key f = v"
  shows "find_one_and_update v upd s =
     (if violates_unique s (pre @ post) (set_fields upd f) then Inl DuplicateKeyError
      else Inr (Some (as_dict (oid, set_fields upd f)),
                s\<lparr>docs := pre @ (oid, set_fields upd f) # post\<rparr>))"
proof -
  have "List.extract (matches_id v) (docs s) = Some (pre, (oid, f), post)"
    using assms by (force simp: extract_Some_iff matches_id_def id_keys_def)
  then show ?thesis by (simp add: find_one_and_update_def Let_def)
qed

lemma first_match:
  assumes "v \<in> set (id_keys ds)"
  obtains pre oid f post where "ds = pre @ (oid, f) # post" "v \<notin> set (id_keys pre)" "id_key f = v"
proof -
  from assms have "\<exists>sd \<in> set ds. id_key (snd sd) = v" by (auto simp: id_keys_def)
  then obtain pre sd post where "ds = pre @ sd # post" "id_key (snd sd) = v"
    "\<forall>x \<in> set pre. id_key (snd x) \<noteq> v"
    by (auto simp: split_list_first_prop_iff)
  then show thesis using that [of pre "fst sd" "snd sd" post] by (force simp: id_keys_def)
qed

lemma upsert_match:
  assumes "docs s = pre @ (oid, f) # post"
    and "v \<notin> set (id_keys pre)" and "id_key f = v"
    and "ids_unique s" and "distinct (map fst d)" and "map_of d ''id'' = Some v"
  shows "update_one_upsert v d s = Inr (s\<lparr>docs := pre @ (oid, set_fields d f) # post\<rparr>)"
proof -
  have "id_key (set_fields d f) = v" using assms by (simp add: id_key_set_fields)
  moreover have "v \<notin> set (id_keys (pre @ post))"
    using assms by (auto simp: ids_unique_def)
  ultimately have "\<not> violates_unique s (pre @ post) (set_fields d f)"
    by (simp add: violates_unique_def)
  then show ?thesis
    using find_one_and_update_match [OF assms(1-3), of d]
    by (simp add: update_one_upsert_def)
qed

lemma upsert_nomatch:
  assumes "v \<notin> set (id_keys (docs s))" and "distinct (map fst d)" and "map_of d ''id'' = Some v"
  shows "update_one_upsert v d s =
     Inr (s\<lparr>docs := docs s @ [(next_oid s, set_fields d [(''id'', v)])],
            next_oid := Suc (next_oid s)\<rparr>)"
proof -
  have "id_key (set_fields d [(''id'', v)]) = v" using assms by (simp add: id_key_set_fields)
  then have "\<not> violates_unique s (docs s) (set_fields d [(''id'', v)])"
    using assms by (simp add: violates_unique_def)
  then show ?thesis
    using find_one_and_update_nomatch [OF assms(1), of d]
    by (simp add: update_one_upsert_def insert_one_def)
qed

lemma upsert_ids_unique:
  assumes "ids_unique s" and "distinct (map fst d)" and "map_of d ''id'' = Some v"
  shows "\<exists>s'. update_one_upsert v d s = Inr s' \<and> ids_unique s'"
proof (cases "v \<in> set (id_keys (docs s))")
  case True
  then obtain pre oid f post where
    split: "docs s = pre @ (oid, f) # post" "v \<notin> set (id_keys pre)" "id_key f = v"
    by (rule first_match)
  have "id_key (set_fields d f) = v" using assms by (simp add: id_key_set_fields)
  then show ?thesis
    using upsert_match [OF split assms] assms(1) split
    by (simp add: ids_unique_def)
next
  case False
  have "id_key (set_fields d [(''id'', v)]) = v" using assms by (simp add: id_key_set_fields)
  then show ?thesis
    using upsert_nomatch [OF False assms(2,3)] assms(1) False
    by (simp add: ids_unique_def)
qed

lemma db_except_clause: "db (snd (except_clause activity e st)) = db st"
  by (simp add: except_clause_def emit_def split: sum.splits)

lemma db_save_activity:
  "db (snd (save_activity lib activity st)) =
     (case activity_document lib activity of
        Inl e \<Rightarrow> db st
      | Inr doc \<Rightarrow>
          (case update_one_upsert (id_key doc) doc (db st) of
             Inl e \<Rightarrow> db st
           | Inr s' \<Rightarrow> s'))"
proof (cases "activity_document lib activity")
  case (Inl e)
  then show ?thesis by (simp add: save_activity_def db_except_clause)
next
  case (Inr doc)
  then have "py_item activity ''id'' = Inr (id_key doc)" by (rule activity_document_id)
  with Inr show ?thesis
    by (simp add: save_activity_def db_except_clause emit_def split: sum.splits)
qed

lemma activity_document_distinct:
  "activity_document lib activity = Inr doc \<Longrightarrow> distinct (map fst doc)"
  by (simp add: activity_document_keys distinct_activity_keys)

lemma activity_document_has_id:
  "activity_document lib activity = Inr doc \<Longrightarrow> map_of doc ''id'' = Some (id_key doc)"
  by (cases activity) (auto simp: activity_document_def bind_exn_eq_Inr id_key_def)


lemma save_activity_ids_unique:
  assumes "ids_unique (db st)"
  shows "ids_unique (db (snd (save_activity lib activity st)))"
proof (cases "activity_document lib activity")
  case (Inl e)
  with assms show ?thesis by (simp add: db_save_activity)
next
  case (Inr doc)
  obtain s' where "update_one_upsert (id_key doc) doc (db st) = Inr s'" "ids_unique s'"
    using upsert_ids_unique [OF assms activity_document_distinct [OF Inr]
        activity_document_has_id [OF Inr]] by blast
  with Inr show ?thesis by (simp add: db_save_activity)
qed







lemma example_store_ids: "id_keys (docs example_store) = [JInt 1, JInt 2]"
  by (simp add: example_store_def id_key_def dict_def example_activity_def)

lemma update_activity_collision:
  "update_activity 1 (example_activity 2) example_store = (Inl DuplicateKeyError, example_store)"
  by (simp add: update_activity_def find_one_and_update_def extract_Cons_code matches_id_def
      example_store_def id_key_def dict_def example_activity_def violates_unique_def
      set_fields_def)

lemma update_activity_without_index:
  "id_keys (docs (snd (update_activity 1 (example_activity 2)
      (example_store\<lparr>unique_index := False\<rparr>)))) = [JInt 2, JInt 2]"
  by (simp add: update_activity_def find_one_and_update_def extract_Cons_code matches_id_def
      example_store_def id_key_def dict_def example_activity_def violates_unique_def
      set_fields_def as_dict_def Let_def)

lemma example_activity_document:
  "activity_document example_lib (example_record i n) = Inr (example_document i n)"
  by (simp add: activity_document_def example_record_def example_fields_def example_lib_def
      example_document_def strptime_def dict_get_def)

lemma save_activity_match:
  assumes "docs (db st) = pre @ (oid, f) # post"
    and "v \<notin> set (id_keys pre)" and "id_key f = v"
    and "ids_unique (db st)" and "activity_document lib a = Inr d" and "id_key d = v"
  shows "db (snd (save_activity lib a st)) = (db st)\<lparr>docs := pre @ (oid, set_fields d f) # post\<rparr>"
proof -
  have "map_of d ''id'' = Some v"
    using activity_document_has_id [OF assms(5)] assms(6) by simp
  then have "update_one_upsert v d (db st) = Inr ((db st)\<lparr>docs := pre @ (oid, set_fields d f) # post\<rparr>)"
    using upsert_match [OF assms(1-4) activity_document_distinct [OF assms(5)]] by simp
  then show ?thesis using assms(5,6) by (simp add: db_save_activity)
qed

lemma update_activity_match:
  assumes "docs s = pre @ (oid, f) # post"
    and "JInt activity_id \<notin> set (id_keys pre)" and "id_key f = JInt activity_id"
    and "update_activity activity_id b s = (Inr r, s')"
  shows "s' = s\<lparr>docs := pre @ (oid, set_fields (dict b) f) # post\<rparr>"
  using assms(4) find_one_and_update_match [OF assms(1-3), of "dict b"]
  by (simp add: update_activity_def as_dict_def split: if_splits)

lemma filter_matches_unique:
  assumes "distinct (id_keys (pre @ (oid, f) # post))" and "id_key f = v"
  shows "filter (matches_id v) (pre @ (oid, f) # post) = [(oid, f)]"
proof -
  have "\<forall>sd \<in> set pre \<union> set post. \<not> matches_id v sd"
    using assms by (force simp: matches_id_def id_keys_def)
  then have "filter (matches_id v) pre = []" "filter (matches_id v) post = []"
    by (simp_all add: filter_empty_conv)
  then show ?thesis using assms(2) by (simp add: matches_id_def)
qed

lemma upsert_result:
  assumes "ids_unique s" and "distinct (map fst d)" and "map_of d ''id'' = Some v"
  shows "\<exists>s' oid f. update_one_upsert v d s = Inr s' \<and> ids_unique s'
           \<and> filter (matches_id v) (docs s') = [(oid, f)]
           \<and> (\<forall>k x. map_of d k = Some x \<longrightarrow> map_of f k = Some x)"
proof (cases "v \<in> set (id_keys (docs s))")
  case True
  then obtain pre oid f post where
    split: "docs s = pre @ (oid, f) # post" "v \<notin> set (id_keys pre)" "id_key f = v"
    by (rule first_match)
  let ?f = "set_fields d f"
  have k: "id_key ?f = v" using assms by (simp add: id_key_set_fields)
  have u: "update_one_upsert v d s = Inr (s\<lparr>docs := pre @ (oid, ?f) # post\<rparr>)"
    by (rule upsert_match [OF split assms])
  have dist: "distinct (id_keys (pre @ (oid, ?f) # post))"
    using assms(1) split k by (simp add: ids_unique_def)
  have "filter (matches_id v) (pre @ (oid, ?f) # post) = [(oid, ?f)]"
    by (rule filter_matches_unique [OF dist k])
  moreover have "\<forall>k x. map_of d k = Some x \<longrightarrow> map_of ?f k = Some x"
    using assms(2) by (simp add: map_of_set_fields)
  ultimately show ?thesis using u dist by (simp add: ids_unique_def)
next
  case False
  let ?f = "set_fields d [(''id'', v)]"
  have k: "id_key ?f = v" using assms by (simp add: id_key_set_fields)
  have u: "update_one_upsert v d s =
     Inr (s\<lparr>docs := docs s @ [(next_oid s, ?f)], next_oid := Suc (next_oid s)\<rparr>)"
    by (rule upsert_nomatch [OF False assms(2,3)])
  have dist: "distinct (id_keys (docs s @ (next_oid s, ?f) # []))"
    using assms(1) False k by (simp add: ids_unique_def)
  have "filter (matches_id v) (docs s @ (next_oid s, ?f) # []) = [(next_oid s, ?f)]"
    by (rule filter_matches_unique [OF dist k])
  moreover have "\<forall>k x. map_of d k = Some x \<longrightarrow> map_of ?f k = Some x"
    using assms(2) by (simp add: map_of_set_fields)
  ultimately show ?thesis using u dist by (simp add: ids_unique_def)
qed

lemma update_activity_at_match:
  assumes "docs s = pre @ (oid, f) # post"
    and "JInt activity_id \<notin> set (id_keys pre)" and "id_key f = JInt activity_id"
    and "\<not> violates_unique s (pre @ post) (set_fields (dict b) f)"
  shows "update_activity activity_id b s =
     (Inr (AList.update ''_id'' (JStr (str_oid oid)) (as_dict (oid, set_fields (dict b) f))),
      s\<lparr>docs := pre @ (oid, set_fields (dict b) f) # post\<rparr>)"
  using assms(4) find_one_and_update_match [OF assms(1-3), of "dict b"]
  by (simp add: update_activity_def as_dict_def)

lemma example_document_id: "id_key (example_document i n) = JInt i"
  by (simp add: id_key_def example_document_def)

lemma example_dict_id: "id_key (dict (example_activity i)) = JInt i"
  by (simp add: id_key_def dict_id example_activity_def)

lemma example_store_unique: "ids_unique example_store"
  by (simp add: ids_unique_def example_store_ids)

lemma example_saved:
  "db (snd (save_activity example_lib (example_record i n) (example_state empty_store))) =
     \<lparr>docs = [(0, set_fields (example_document i n) [(''id'', JInt i)])], next_oid = Suc 0,
      unique_index = False\<rparr>"
proof -
  have "update_one_upsert (JInt i) (example_document i n) empty_store =
     Inr (empty_store\<lparr>docs := docs empty_store @ [(next_oid empty_store,
            set_fields (example_document i n) [(''id'', JInt i)])],
          next_oid := Suc (next_oid empty_store)\<rparr>)"
    by (rule upsert_nomatch) (simp_all add: empty_store_def example_document_def)
  then show ?thesis
    by (simp add: db_save_activity example_activity_document example_document_id
        example_state_def empty_store_def)
qed

lemma example_created:
  "snd (create_activity (example_activity i) empty_store) =
     \<lparr>docs = [(0, dict (example_activity i))], next_oid = Suc 0, unique_index = False\<rparr>"
  by (simp add: create_activity_def find_one_def empty_store_def insert_one_def
      violates_unique_def)

lemma py_item_JObj_Inr: "py_item (JObj r) k = Inr v \<longleftrightarrow> map_of r k = Some v"
  by (simp split: option.splits)

lemma strptime_Inr:
  "strptime parse x = Inr y \<longleftrightarrow> (\<exists>s t. x = JStr s \<and> parse s = Some t \<and> y = JDate t)"
  by (cases x) (auto simp: strptime_def split: option.splits)

lemma activity_document_JObjD:
  assumes "activity_document lib (JObj r) = Inr doc"
  shows "\<exists>polyline_data decoded v_id v_name v_type sd t1 sl t2.
        py_get (dict_get r ''map'' (JObj [])) ''summary_polyline'' JNull = Inr polyline_data
      \<and> (if truthy polyline_data then polyline_decode lib polyline_data else Inr JNull) = Inr decoded
      \<and> map_of r ''id'' = Some v_id
      \<and> map_of r ''name'' = Some v_name
      \<and> map_of r ''type'' = Some v_type
      \<and> map_of r ''start_date'' = Some (JStr sd) \<and> strptime_utc lib sd = Some t1
      \<and> map_of r ''start_date_local'' = Some (JStr sl) \<and> strptime_offset lib sl = Some t2
      \<and> doc =
          [(''id'', v_id), (''name'', v_name), (''type'', v_type),
           (''distance'', dict_get r ''distance'' JNull),
           (''moving_time'', dict_get r ''moving_time'' JNull),
           (''elapsed_time'', dict_get r ''elapsed_time'' JNull),
           (''total_elevation_gain'', dict_get r ''total_elevation_gain'' JNull),
           (''sport_type'', dict_get r ''sport_type'' JNull),
           (''start_date'', JDate t1), (''start_date_local'', JDate t2),
           (''timezone'', dict_get r ''timezone'' JNull),
           (''map'', dict_get r ''map'' (JObj [])),
           (''polyline'', polyline_data), (''decoded_polyline'', decoded),
           (''gear'', dict_get r ''gear'' JNull),
           (''average_speed'', dict_get r ''average_speed'' JNull),
           (''max_speed'', dict_get r ''max_speed'' JNull),
           (''average_cadence'', dict_get r ''average_cadence'' JNull),
           (''average_heartrate'', dict_get r ''average_heartrate'' JNull),
           (''max_heartrate'', dict_get r ''max_heartrate'' JNull),
           (''calories'', dict_get r ''calories'' JNull),
           (''raw_data'', JObj r)]"
  using assms unfolding activity_document_def
  by (auto simp: bind_exn_eq_Inr strptime_Inr py_item_JObj_Inr simp del: py_item.simps)

lemma activity_document_JObjI:
  assumes "py_get (dict_get r ''map'' (JObj [])) ''summary_polyline'' JNull = Inr polyline_data"
    and "(if truthy polyline_data then polyline_decode lib polyline_data else Inr JNull) = Inr decoded"
    and "map_of r ''id'' = Some v_id"
    and "map_of r ''name'' = Some v_name"
    and "map_of r ''type'' = Some v_type"
    and "map_of r ''start_date'' = Some (JStr sd)" and "strptime_utc lib sd = Some t1"
    and "map_of r ''start_date_local'' = Some (JStr sl)" and "strptime_offset lib sl = Some t2"
  shows "activity_document lib (JObj r) =
     Inr [(''id'', v_id), (''name'', v_name), (''type'', v_type),
           (''distance'', dict_get r ''distance'' JNull),
           (''moving_time'', dict_get r ''moving_time'' JNull),
           (''elapsed_time'', dict_get r ''elapsed_time'' JNull),
           (''total_elevation_gain'', dict_get r ''total_elevation_gain'' JNull),
           (''sport_type'', dict_get r ''sport_type'' JNull),
           (''start_date'', JDate t1), (''start_date_local'', JDate t2),
           (''timezone'', dict_get r ''timezone'' JNull),
           (''map'', dict_get r ''map'' (JObj [])),
           (''polyline'', polyline_data), (''decoded_polyline'', decoded),
           (''gear'', dict_get r ''gear'' JNull),
           (''average_speed'', dict_get r ''average_speed'' JNull),
           (''max_speed'', dict_get r ''max_speed'' JNull),
           (''average_cadence'', dict_get r ''average_cadence'' JNull),
           (''average_heartrate'', dict_get r ''average_heartrate'' JNull),
           (''max_heartrate'', dict_get r ''max_heartrate'' JNull),
           (''calories'', dict_get r ''calories'' JNull),
           (''raw_data'', JObj r)]"
  unfolding activity_document_def
  using assms(2) by (simp add: assms(1,3-9) strptime_def)

lemma save_activity_stored:
  assumes "activity_document lib activity = Inr doc" and "ids_unique (db st)"
  shows "\<exists>v_name s' oid f.
           py_item activity ''name'' = Inr v_name
         \<and> save_activity lib activity st =
             (None, emit (Info_saved (id_key doc) v_name) (st\<lparr>db := s'\<rparr>))
         \<and> ids_unique s'
         \<and> filter (matches_id (id_key doc)) (docs s') = [(oid, f)]
         \<and> (\<forall>k x. map_of doc k = Some x \<longrightarrow> map_of f k = Some x)"
proof -
  obtain r where r: "activity = JObj r"
    using activity_document_dict [OF assms(1)] by blast
  obtain v_name where n: "map_of r ''name'' = Some v_name"
    using activity_document_JObjD [of lib r doc] assms(1) r by auto
  have i: "py_item activity ''id'' = Inr (id_key doc)"
    by (rule activity_document_id [OF assms(1)])
  obtain s' oid f where u: "update_one_upsert (id_key doc) doc (db st) = Inr s'"
    "ids_unique s'" "filter (matches_id (id_key doc)) (docs s') = [(oid, f)]"
    "\<forall>k x. map_of doc k = Some x \<longrightarrow> map_of f k = Some x"
    using upsert_result [OF assms(2) activity_document_distinct [OF assms(1)]
        activity_document_has_id [OF assms(1)]] by blast
  have "save_activity lib activity st =
          (None, emit (Info_saved (id_key doc) v_name) (st\<lparr>db := s'\<rparr>))"
    using assms(1) i u(1) n r by (simp add: save_activity_def)
  then show ?thesis using u n r by auto
qed

lemma access_token_emit [simp]: "access_token (emit ev st) = access_token st"
  by (simp add: emit_def)

lemma db_emit [simp]: "db (emit ev st) = db st"
  by (simp add: emit_def)

lemma events_emit [simp]: "events (emit ev st) = events st @ [ev]"
  by (simp add: emit_def)










lemma sequence_exn_Inr: "sequence_exn ms = Inr ys \<longleftrightarrow> ms = map Inr ys"
proof (induction ms arbitrary: ys)
  case Nil
  then show ?case by auto
next
  case (Cons m ms)
  show ?case
  proof (cases m)
    case (Inl e)
    then show ?thesis by (cases ys) auto
  next
    case (Inr x)
    then show ?thesis using Cons.IH by (cases ys) (auto simp: bind_exn_eq_Inr)
  qed
qed

lemma jsonable_encoder_JArr:
  "jsonable_encoder isoformat (JArr xs) = Inr out \<longleftrightarrow>
     (\<exists>ys. out = JArr ys \<and> map (jsonable_encoder isoformat) xs = map Inr ys)"
  by (auto simp: bind_exn_eq_Inr sequence_exn_Inr)

lemma map_Inr_keys:
  assumes "map g d = map Inr d'"
    and "\<And>kv x. g kv = Inr x \<Longrightarrow> fst x = fst kv"
  shows "map fst d' = map fst d"
  using assms(1)
proof (induction d arbitrary: d')
  case Nil
  then show ?case by simp
next
  case (Cons kv d)
  from Cons.prems obtain x rest where d': "d' = x # rest" by (cases d') auto
  from Cons.prems have "g kv = Inr x" and tl: "map g d = map Inr rest"
    unfolding d' by simp_all
  then have "fst x = fst kv" using assms(2) by blast
  then show ?case using Cons.IH [OF tl] d' by simp
qed

lemma keyed_key: "keyed (map_prod id f kv) = Inr x \<Longrightarrow> fst x = fst kv"
  by (cases kv) (auto simp: keyed_def bind_exn_eq_Inr)

lemma length_find_page:
  "length (find_page offset limit s) =
     (case limit of None \<Rightarrow> length (docs s) - offset
      | Some n \<Rightarrow> min n (length (docs s) - offset))"
  by (simp add: find_page_def min.commute split: option.splits)

lemma nth_find_page:
  "j < length (find_page offset limit s) \<Longrightarrow> find_page offset limit s ! j = docs s ! (offset + j)"
  by (auto simp: find_page_def split: option.splits)










lemma example_route_activity_document:
  "activity_document example_lib (JObj example_route_fields) = Inr example_route_document"
  by (simp add: activity_document_def example_route_fields_def example_lib_def
      example_route_document_def strptime_def dict_get_def)

lemma response_field_key: "response_field validate item f = Inr x \<Longrightarrow> fst x = fst f"
  by (auto simp: response_field_def Let_def split: if_splits option.splits)

lemma distinct_Activity_fields: "distinct (map fst Activity_fields)"
  by (simp add: Activity_fields_def)

lemma response_model_Activity_Inr:
  assumes "response_model_Activity validate item = Inr x"
  shows "\<exists>d0 d. item = JObj d0 \<and> x = JObj d
           \<and> map (response_field validate d0) Activity_fields = map Inr d
           \<and> map fst d = map fst Activity_fields"
proof -
  from assms obtain d0 where i: "item = JObj d0"
    by (cases item) (simp_all add: response_model_Activity_def)
  with assms obtain d where x: "x = JObj d"
    and m: "map (response_field validate d0) Activity_fields = map Inr d"
    by (auto simp: response_model_Activity_def bind_exn_eq_Inr sequence_exn_Inr)
  from m have "map fst d = map fst Activity_fields"
    by (rule map_Inr_keys) (rule response_field_key)
  with i x m show ?thesis by blast
qed

lemma response_model_lookup:
  assumes m: "map (response_field validate d0) Activity_fields = map Inr d"
    and f: "(k, t, r) \<in> set Activity_fields"
  shows "map_of d k =
           (if dict_get d0 k JNull = JNull then Some JNull
            else validate t (dict_get d0 k JNull))"
proof -
  have keys: "map fst d = map fst Activity_fields"
    using m by (rule map_Inr_keys) (rule response_field_key)
  have "response_field validate d0 (k, t, r) \<in> set (map (response_field validate d0) Activity_fields)"
    using f by force
  then have "response_field validate d0 (k, t, r) \<in> set (map Inr d)"
    unfolding m .
  then obtain x where xin: "x \<in> set d" and x: "response_field validate d0 (k, t, r) = Inr x"
    by auto
  have dist: "distinct (map fst d)"
    unfolding keys by (rule distinct_Activity_fields)
  have "(fst x, snd x) \<in> set d" using xin by simp
  then have look: "map_of d (fst x) = Some (snd x)"
    by (rule map_of_is_SomeI [OF dist])
  have kx: "fst x = k" using response_field_key [OF x] by simp
  from x have "Some (snd x) =
           (if dict_get d0 k JNull = JNull then Some JNull
            else validate t (dict_get d0 k JNull))"
    by (auto simp: response_field_def Let_def split: if_splits option.splits)
  with look kx show ?thesis by simp
qed

lemma response_model_List_Activity_Inr:
  "response_model_List_Activity validate content = Inr out \<longleftrightarrow>
     (\<exists>items xs. content = JArr items \<and> out = JArr xs
        \<and> map (response_model_Activity validate) items = map Inr xs)"
  by (cases content)
     (auto simp: response_model_List_Activity_def bind_exn_eq_Inr sequence_exn_Inr)

lemma keyed_lookup:
  assumes "map g d = map Inr d'"
    and g: "\<And>kv x. g kv = Inr x \<Longrightarrow> fst x = fst kv \<and> f (snd kv) = Inr (snd x)"
    and n: "f JNull = Inr JNull"
  shows "f (dict_get d k JNull) = Inr (dict_get d' k JNull)"
  using assms(1)
proof (induction d arbitrary: d')
  case Nil
  then show ?case using n by (simp add: dict_get_def)
next
  case (Cons kv d)
  from Cons.prems obtain x rest where d': "d' = x # rest" by (cases d') auto
  from Cons.prems have h: "g kv = Inr x" and tl: "map g d = map Inr rest"
    unfolding d' by simp_all
  from g [OF h] have fx: "fst x = fst kv" and sx: "f (snd kv) = Inr (snd x)"
    by simp_all
  have ih: "f (dict_get d k JNull) = Inr (dict_get rest k JNull)"
    by (rule Cons.IH [OF tl])
  show ?case
  proof (cases "fst kv = k")
    case True
    then have "dict_get (kv # d) k JNull = snd kv" "dict_get (x # rest) k JNull = snd x"
      using fx by (cases kv; cases x; simp add: dict_get_def)+
    then show ?thesis using sx d' by simp
  next
    case False
    then have "dict_get (kv # d) k JNull = dict_get d k JNull"
      "dict_get (x # rest) k JNull = dict_get rest k JNull"
      using fx by (cases kv; cases x; simp add: dict_get_def)+
    then show ?thesis using ih d' by simp
  qed
qed

lemma keyed_value: "keyed (map_prod id f kv) = Inr x \<Longrightarrow> f (snd kv) = Inr (snd x)"
  by (cases kv) (auto simp: keyed_def bind_exn_eq_Inr)

lemma jsonable_encoder_JObj_lookup:
  assumes "jsonable_encoder isoformat (JObj d) = Inr (JObj d')"
  shows "jsonable_encoder isoformat (dict_get d k JNull) = Inr (dict_get d' k JNull)"
proof -
  from assms have
    m: "map (\<lambda>kv. keyed (map_prod id (jsonable_encoder isoformat) kv)) d = map Inr d'"
    by (auto simp: bind_exn_eq_Inr sequence_exn_Inr comp_def)
  show ?thesis
  proof (rule keyed_lookup [OF m])
    show "fst x = fst kv \<and> jsonable_encoder isoformat (snd kv) = Inr (snd x)"
      if "keyed (map_prod id (jsonable_encoder isoformat) kv) = Inr x" for kv x
      using keyed_key [OF that] keyed_value [OF that] by simp
  qed simp
qed

lemma map_of_isoformat_field:
  "k' \<noteq> k \<Longrightarrow> map_of (isoformat_field isoformat k activity) k' = map_of activity k'"
  by (simp add: isoformat_field_def update_conv' split: option.splits json.splits)

lemma shape_activity_polyline:
  "dict_get (shape_activity isoformat include_polyline sd) ''decoded_polyline'' JNull
     = (if include_polyline then dict_get (snd sd) ''decoded_polyline'' JNull else JNull)"
  by (simp add: shape_activity_def Let_def map_of_isoformat_field update_conv' as_dict_def
      dict_get_def delete_conv')

lemma get_activities_Inr:
  assumes "get_activities validate isoformat limit offset include_polyline s = Inr out"
  shows "0 \<le> offset \<and> (\<exists>ys xs. out = JArr xs
     \<and> map (\<lambda>sd. jsonable_encoder isoformat (JObj (shape_activity isoformat include_polyline sd)))
           (find_page (nat offset) (map_option nat limit) s) = map Inr ys
     \<and> map (response_model_Activity validate) ys = map Inr xs)"
proof -
  let ?page = "find_page (nat offset) (map_option nat limit) s"
  let ?shaped = "map (\<lambda>sd. JObj (shape_activity isoformat include_polyline sd)) ?page"
  from assms have valid: "0 \<le> offset"
    by (auto simp: get_activities_def split: if_splits)
  from assms obtain b where enc: "jsonable_encoder isoformat (JArr ?shaped) = Inr b"
    and rm: "response_model_List_Activity validate b = Inr out"
    by (auto simp: get_activities_def get_activities_body_def bind_exn_eq_Inr split: if_splits)
  from enc obtain ys where b: "b = JArr ys"
    and m: "map (jsonable_encoder isoformat) ?shaped = map Inr ys"
    unfolding jsonable_encoder_JArr by blast
  from rm obtain xs where xs: "out = JArr xs"
    and r: "map (response_model_Activity validate) ys = map Inr xs"
    unfolding response_model_List_Activity_Inr b by auto
  from m have m': "map (\<lambda>sd. jsonable_encoder isoformat (JObj (shape_activity isoformat include_polyline sd)))
           ?page = map Inr ys"
    by (simp add: comp_def)
  show ?thesis
    by (rule conjI [OF valid]) (rule exI [of _ ys], rule exI [of _ xs], rule conjI [OF xs conjI [OF m' r]])
qed

lemma example_list_response:
  "get_activities example_validate (\<lambda>t. ''2024-05-01T10:00:00'') (Some 2) 1 False
       example_collection
     = Inr (JArr [example_served 2, example_served 3])"
  by (simp add: get_activities_def get_activities_body_def find_page_def example_collection_def
      example_stored_def shape_activity_def as_dict_def isoformat_field_def keyed_def Let_def
      response_model_List_Activity_def response_model_Activity_def response_field_def
      Activity_fields_def dict_def dict_get_def optional_def example_route_activity_def
      example_activity_def example_validate_def example_served_def)

lemma get_activities_answer:
  assumes "case limit of None \<Rightarrow> True | Some l \<Rightarrow> 1 \<le> l \<and> l \<le> 1000"
    and "0 \<le> offset"
    and "map (\<lambda>sd. jsonable_encoder isoformat (JObj (shape_activity isoformat include_polyline sd)))
           (find_page (nat offset) (map_option nat limit) s) = map Inr ys"
    and "map (response_model_Activity validate) ys = map Inr zs"
  shows "get_activities validate isoformat limit offset include_polyline s = Inr (JArr zs)"
proof -
  have "get_activities_body isoformat (map_option nat limit) (nat offset) include_polyline s
      = Inr (JArr ys)"
    using assms(3) by (simp add: get_activities_body_def comp_def sequence_exn_Inr [THEN iffD2])
  moreover have "response_model_List_Activity validate (JArr ys) = Inr (JArr zs)"
    using assms(4) by (simp add: response_model_List_Activity_def sequence_exn_Inr [THEN iffD2])
  ultimately show ?thesis
    using assms(1,2) by (auto simp: get_activities_def split: option.splits)
qed

lemma example_list_encoded:
  "map (\<lambda>sd. jsonable_encoder (\<lambda>t. ''2024-05-01T10:00:00'')
               (JObj (shape_activity (\<lambda>t. ''2024-05-01T10:00:00'') False sd)))
       (find_page (nat 1) (map_option nat (Some 2)) example_collection)
     = map Inr [example_encoded 2, example_encoded 3]"
  by (simp add: find_page_def example_collection_def
      example_stored_def shape_activity_def as_dict_def isoformat_field_def keyed_def Let_def
      dict_def optional_def example_route_activity_def
      example_activity_def example_encoded_def)

lemma example_list_served:
  "map (response_model_Activity example_validate) [example_encoded 2, example_encoded 3]
     = map Inr [example_served 2, example_served 3]"
  by (simp add: response_model_Activity_def response_field_def
      Activity_fields_def dict_def dict_get_def optional_def example_route_activity_def
      example_activity_def example_validate_def example_served_def example_encoded_def)

section \<open>The claims\<close>

subsection \<open>C1\<close>

text \<open>
  C1 (as amended).  Both write paths apply a field-wise \<open>$set\<close> to the first document
  whose \<open>id\<close> matches, and the document stays at its place in the collection: after the
  sync's upsert of a record, and after a successful API update, every field the new
  document names has the new document's value, and every field of the previous version
  that the new document does not name keeps its previous value.  The stored fields are
  the previous fields overridden by the new ones (\<open>map_of f ++ map_of d\<close>); they are
  the new document's fields alone exactly when the previous version had no field
  outside the new document's.
\<close>

theorem write_paths_set_fields:
  assumes "docs s = pre @ (oid, f) # post" and "v \<notin> set (id_keys pre)" and "id_key f = v"
  shows "(activity_document lib a = Inr d \<and> id_key d = v \<and> db st = s \<and> ids_unique s \<longrightarrow>
            (\<exists>f'. docs (db (snd (save_activity lib a st))) = pre @ (oid, f') # post
                 \<and> map_of f' = map_of f ++ map_of d))
       \<and> (v = JInt activity_id \<and> update_activity activity_id b s = (Inr r, s') \<longrightarrow>
            (\<exists>f'. docs s' = pre @ (oid, f') # post
                 \<and> map_of f' = map_of f ++ map_of (dict b)))"
proof (intro conjI impI)
  assume h: "activity_document lib a = Inr d \<and> id_key d = v \<and> db st = s \<and> ids_unique s"
  then have "db (snd (save_activity lib a st)) = (db st)\<lparr>docs := pre @ (oid, set_fields d f) # post\<rparr>"
    using save_activity_match [of st pre oid f post v lib a d] assms by simp
  moreover have "distinct (map fst d)"
    using h activity_document_distinct [of lib a d] by simp
  then have "map_of (set_fields d f) = map_of f ++ map_of d"
    by (simp add: map_of_set_fields)
  ultimately show "\<exists>f'. docs (db (snd (save_activity lib a st))) = pre @ (oid, f') # post
                 \<and> map_of f' = map_of f ++ map_of d"
    by simp
next
  assume h: "v = JInt activity_id \<and> update_activity activity_id b s = (Inr r, s')"
  then have "s' = s\<lparr>docs := pre @ (oid, set_fields (dict b) f) # post\<rparr>"
    using update_activity_match [of s pre oid f post activity_id b r s'] assms by simp
  moreover have "map_of (set_fields (dict b) f) = map_of f ++ map_of (dict b)"
    by (simp add: map_of_set_fields dict_keys)
  ultimately show "\<exists>f'. docs s' = pre @ (oid, f') # post
                 \<and> map_of f' = map_of f ++ map_of (dict b)"
    by simp
qed

theorem write_paths_set_fields_witness:
  "docs example_store = [(0, dict (example_activity 1))] @ (1, dict (example_activity 2)) # []
   \<and> JInt 2 \<notin> set (id_keys [(0, dict (example_activity 1))])
   \<and> id_key (dict (example_activity 2)) = JInt 2
   \<and> activity_document example_lib (example_record 2 ''Again'') = Inr (example_document 2 ''Again'')
   \<and> id_key (example_document 2 ''Again'') = JInt 2
   \<and> ids_unique example_store
   \<and> update_activity 2 (example_activity 2) example_store =
       (Inr (AList.update ''_id'' (JStr (str_oid 1))
              (as_dict (1, set_fields (dict (example_activity 2)) (dict (example_activity 2))))),
        example_store\<lparr>docs := [(0, dict (example_activity 1))]
            @ (1, set_fields (dict (example_activity 2)) (dict (example_activity 2))) # []\<rparr>)
   \<and> (\<exists>f'. docs (db (snd (save_activity example_lib (example_record 2 ''Again'')
                (example_state example_store))))
             = [(0, dict (example_activity 1))] @ (1, f') # []
          \<and> map_of f' = map_of (dict (example_activity 2)) ++ map_of (example_document 2 ''Again''))
   \<and> (\<exists>f'. docs (example_store\<lparr>docs := [(0, dict (example_activity 1))]
            @ (1, set_fields (dict (example_activity 2)) (dict (example_activity 2))) # []\<rparr>)
             = [(0, dict (example_activity 1))] @ (1, f') # []
          \<and> map_of f' = map_of (dict (example_activity 2)) ++ map_of (dict (example_activity 2)))"
proof -
  have h1: "docs example_store = [(0, dict (example_activity 1))] @ (1, dict (example_activity 2)) # []"
    by (simp add: example_store_def)
  have h2: "JInt 2 \<notin> set (id_keys [(0, dict (example_activity 1))])"
    by (simp add: example_dict_id)
  have h3: "id_key (dict (example_activity 2)) = JInt 2"
    by (simp add: example_dict_id)
  have h4: "activity_document example_lib (example_record 2 ''Again'') = Inr (example_document 2 ''Again'')"
    by (rule example_activity_document)
  have h5: "id_key (example_document 2 ''Again'') = JInt 2"
    by (rule example_document_id)
  have h6: "\<not> violates_unique example_store ([(0, dict (example_activity 1))] @ [])
              (set_fields (dict (example_activity 2)) (dict (example_activity 2)))"
  proof -
    have "id_key (set_fields (dict (example_activity 2)) (dict (example_activity 2))) = JInt 2"
      by (simp add: id_key_set_fields dict_keys dict_id example_activity_def)
    then show ?thesis by (simp add: violates_unique_def example_dict_id)
  qed
  have h7: "update_activity 2 (example_activity 2) example_store =
       (Inr (AList.update ''_id'' (JStr (str_oid 1))
              (as_dict (1, set_fields (dict (example_activity 2)) (dict (example_activity 2))))),
        example_store\<lparr>docs := [(0, dict (example_activity 1))]
            @ (1, set_fields (dict (example_activity 2)) (dict (example_activity 2))) # []\<rparr>)"
    by (rule update_activity_at_match [OF h1 h2 h3 h6])
  have h8: "db (example_state example_store) = example_store"
    by (simp add: example_state_def)
  show ?thesis
    using h1 h2 h3 h4 h5 h7 h8 example_store_unique
      write_paths_set_fields [OF h1 h2 h3, of example_lib "example_record 2 ''Again''"
        "example_document 2 ''Again''" "example_state example_store" 2 "example_activity 2"
        "AList.update ''_id'' (JStr (str_oid 1))
              (as_dict (1, set_fields (dict (example_activity 2)) (dict (example_activity 2))))"
        "example_store\<lparr>docs := [(0, dict (example_activity 1))]
            @ (1, set_fields (dict (example_activity 2)) (dict (example_activity 2))) # []\<rparr>"]
    by simp
qed

theorem full_replacement_counterexample:
  "map_of (snd (hd (docs (snd (update_activity 7 (example_activity 7)
      (db (snd (save_activity example_lib (example_record 7 ''Ride'')
         (example_state empty_store)))))))))
      ''gear'' = Some (JStr ''b12345'')
   \<and> map_of (dict (example_activity 7)) ''gear'' = None
   \<and> map_of (snd (hd (docs (db (snd (save_activity example_lib (example_record 7 ''Ride'')
        (example_state (snd (create_activity (example_activity 7) empty_store)))))))))
      ''photos'' = Some (JArr [JStr ''p1.jpg''])
   \<and> activity_document example_lib (example_record 7 ''Ride'') = Inr (example_document 7 ''Ride'')
   \<and> map_of (example_document 7 ''Ride'') ''photos'' = None"
proof -
  let ?f = "set_fields (example_document 7 ''Ride'') [(''id'', JInt 7)]"
  let ?s1 = "\<lparr>docs = [(0, ?f)], next_oid = Suc 0, unique_index = False\<rparr>"
  have k: "id_key ?f = JInt 7"
    by (simp add: id_key_set_fields example_document_def)
  have "update_activity 7 (example_activity 7) ?s1 =
     (Inr (AList.update ''_id'' (JStr (str_oid 0))
        (as_dict (0, set_fields (dict (example_activity 7)) ?f))),
      ?s1\<lparr>docs := [] @ (0, set_fields (dict (example_activity 7)) ?f) # []\<rparr>)"
    by (rule update_activity_at_match) (simp_all add: k violates_unique_def)
  moreover have "map_of (set_fields (dict (example_activity 7)) ?f) ''gear'' = Some (JStr ''b12345'')"
    by (simp add: map_of_set_fields map_add_def dict_def example_document_def)
  ultimately have a: "map_of (snd (hd (docs (snd (update_activity 7 (example_activity 7)
      (db (snd (save_activity example_lib (example_record 7 ''Ride'')
         (example_state empty_store))))))))) ''gear'' = Some (JStr ''b12345'')"
    by (simp add: example_saved)
  let ?s2 = "\<lparr>docs = [(0, dict (example_activity 7))], next_oid = Suc 0, unique_index = False\<rparr>"
  have "update_one_upsert (JInt 7) (example_document 7 ''Ride'') ?s2 =
     Inr (?s2\<lparr>docs := [] @ (0, set_fields (example_document 7 ''Ride'') (dict (example_activity 7))) # []\<rparr>)"
    by (rule upsert_match)
       (simp_all add: example_dict_id ids_unique_def example_document_def)
  moreover have "map_of (set_fields (example_document 7 ''Ride'') (dict (example_activity 7))) ''photos''
      = Some (JArr [JStr ''p1.jpg''])"
    by (simp add: map_of_set_fields map_add_def example_document_def dict_def
        example_activity_def optional_def)
  ultimately have b: "map_of (snd (hd (docs (db (snd (save_activity example_lib (example_record 7 ''Ride'')
        (example_state (snd (create_activity (example_activity 7) empty_store)))))))))
      ''photos'' = Some (JArr [JStr ''p1.jpg''])"
    by (simp add: example_created db_save_activity example_activity_document
        example_document_id example_state_def)
  have c: "map_of (dict (example_activity 7)) ''gear'' = None"
    by (simp add: dict_def)
  have d: "map_of (example_document 7 ''Ride'') ''photos'' = None"
    by (simp add: example_document_def)
  show ?thesis using a b c d example_activity_document by simp
qed

subsection \<open>C2\<close>




subsection \<open>C3\<close>

text \<open>
  C3.  The \<open>try\<close>/\<open>except\<close> inside the loop is there to skip a record that fails, but
  the handler's own log line reads \<open>activity['id']\<close>.  On a page whose first record has
  no \<open>id\<close>, the \<open>KeyError\<close> of the \<open>try\<close> block is caught, the handler raises
  \<open>KeyError\<close> again, and \<open>save_activities_to_db\<close> is left with that exception: nothing is
  logged, and the valid second record is never stored.
\<close>

theorem missing_id_aborts_page:
  "save_activities_to_db example_lib
     (JArr [JObj [(''name'', JStr ''No id'')], example_record 5 ''Valid''])
     (example_state empty_store)
   = (Some (KeyError ''id''), example_state empty_store)"
  by (simp add: save_activities_to_db_def save_activity_def activity_document_def
      except_clause_def is_Exception_def dict_get_def example_record_def)

subsection \<open>C4\<close>

text \<open>
  C4.  Two upstream records with the same \<open>id\<close>, both of which transform into a
  document, saved one after the other into a collection with pairwise different
  \<open>id\<close> keys: the collection then holds exactly one document with that \<open>id\<close>, and
  every field of the second record's document has the second's value there.
\<close>

theorem upsert_twice_one_document:
  assumes "ids_unique (db st)"
    and "activity_document lib a1 = Inr d1" and "id_key d1 = v"
    and "activity_document lib a2 = Inr d2" and "id_key d2 = v"
  shows "\<exists>oid f. filter (matches_id v)
             (docs (db (snd (save_activity lib a2 (snd (save_activity lib a1 st)))))) = [(oid, f)]
           \<and> (\<forall>k x. map_of d2 k = Some x \<longrightarrow> map_of f k = Some x)"
proof -
  let ?st1 = "snd (save_activity lib a1 st)"
  have u1: "ids_unique (db ?st1)" by (rule save_activity_ids_unique [OF assms(1)])
  obtain s' oid f where "update_one_upsert v d2 (db ?st1) = Inr s'"
    "filter (matches_id v) (docs s') = [(oid, f)]"
    "\<forall>k x. map_of d2 k = Some x \<longrightarrow> map_of f k = Some x"
    using upsert_result [OF u1 activity_document_distinct [OF assms(4)], of v]
      activity_document_has_id [OF assms(4)] assms(5) by auto
  then show ?thesis using assms(4,5) by (auto simp: db_save_activity)
qed

theorem upsert_twice_one_document_witness:
  "ids_unique (db (example_state example_store))
   \<and> activity_document example_lib (example_record 2 ''First'') = Inr (example_document 2 ''First'')
   \<and> id_key (example_document 2 ''First'') = JInt 2
   \<and> activity_document example_lib (example_record 2 ''Second'') = Inr (example_document 2 ''Second'')
   \<and> id_key (example_document 2 ''Second'') = JInt 2
   \<and> (\<exists>oid f. filter (matches_id (JInt 2))
          (docs (db (snd (save_activity example_lib (example_record 2 ''Second'')
             (snd (save_activity example_lib (example_record 2 ''First'')
                (example_state example_store))))))) = [(oid, f)]
        \<and> map_of f ''name'' = Some (JStr ''Second''))"
proof -
  have h1: "ids_unique (db (example_state example_store))"
    by (simp add: example_state_def example_store_unique)
  have n: "map_of (example_document 2 ''Second'') ''name'' = Some (JStr ''Second'')"
    by (simp add: example_document_def)
  show ?thesis
    using h1 n example_activity_document example_document_id
      upsert_twice_one_document [of "example_state example_store" example_lib
        "example_record 2 ''First''" "example_document 2 ''First''" "JInt 2"
        "example_record 2 ''Second''" "example_document 2 ''Second''"]
    by auto
qed

subsection \<open>C5\<close>



subsection \<open>C6\<close>

text \<open>
  C6.  \<open>refresh_access_token\<close> sends one request.  On status 200 with a body that
  carries \<open>access_token\<close> the global token becomes that value.  On any other status it
  logs the status and calls \<open>exit()\<close>: the outcome is \<open>SystemExit\<close>, which is not an
  \<open>Exception\<close>; the token is untouched, no second request is sent, and the cycle ends
  there without requesting any page.
\<close>

theorem refresh_outcomes:
  "(status_code (token_endpoint up) = 200 \<and> body (token_endpoint up) = Some token_data
      \<and> py_item token_data ''access_token'' = Inr t \<longrightarrow>
        refresh_access_token up st =
          (None, st\<lparr>access_token := t,
                    events := events st @ [Info_refreshing, PostToken, Info_refreshed]\<rparr>))
   \<and> (status_code (token_endpoint up) \<noteq> 200 \<longrightarrow>
        refresh_access_token up st =
          (Some SystemExit,
           st\<lparr>events := events st
                 @ [Info_refreshing, PostToken, Error_refreshing (status_code (token_endpoint up))]\<rparr>)
      \<and> \<not> is_Exception SystemExit
      \<and> sync_activities lib up per_page st =
          Some (Some SystemExit,
                st\<lparr>events := events st
                 @ [Info_starting, Info_refreshing, PostToken,
                    Error_refreshing (status_code (token_endpoint up))]\<rparr>))"
  by (simp add: refresh_access_token_def sync_activities_def emit_def is_Exception_def Let_def)

theorem refresh_outcomes_witness:
  "status_code (token_endpoint example_upstream) = 200
   \<and> body (token_endpoint example_upstream) = Some (JObj [(''access_token'', JStr ''tok1'')])
   \<and> py_item (JObj [(''access_token'', JStr ''tok1'')]) ''access_token'' = Inr (JStr ''tok1'')
   \<and> refresh_access_token example_upstream (example_state empty_store) =
        (None, \<lparr>db = empty_store, access_token = JStr ''tok1'',
                 events = [Info_refreshing, PostToken, Info_refreshed]\<rparr>)
   \<and> status_code (token_endpoint example_denied) \<noteq> 200
   \<and> refresh_access_token example_denied (example_state empty_store) =
        (Some SystemExit, \<lparr>db = empty_store, access_token = JNull,
                 events = [Info_refreshing, PostToken, Error_refreshing 401]\<rparr>)
   \<and> sync_activities example_lib example_denied 200 (example_state empty_store) =
        Some (Some SystemExit, \<lparr>db = empty_store, access_token = JNull,
                 events = [Info_starting, Info_refreshing, PostToken, Error_refreshing 401]\<rparr>)"
proof -
  have h1: "status_code (token_endpoint example_upstream) = 200
      \<and> body (token_endpoint example_upstream) = Some (JObj [(''access_token'', JStr ''tok1'')])
      \<and> py_item (JObj [(''access_token'', JStr ''tok1'')]) ''access_token'' = Inr (JStr ''tok1'')"
    by (simp add: example_upstream_def)
  have h2: "status_code (token_endpoint example_denied) \<noteq> 200"
    and c: "status_code (token_endpoint example_denied) = 401"
    by (simp_all add: example_denied_def)
  show ?thesis
    using h1 h2
      mp [OF conjunct1 [OF refresh_outcomes [of example_upstream
            "JObj [(''access_token'', JStr ''tok1'')]" "JStr ''tok1''"
            "example_state empty_store" example_lib 200]] h1]
      mp [OF conjunct2 [OF refresh_outcomes [of example_denied
            "JObj [(''access_token'', JStr ''tok1'')]" "JStr ''tok1''"
            "example_state empty_store" example_lib 200]] h2]
    by (simp add: c example_state_def)
qed

subsection \<open>C7\<close>

text \<open>
  C7.  Creating an activity whose id is the id of a stored document raises the
  400 error and leaves the collection as it was.
\<close>

theorem create_activity_conflict:
  "\<exists>sd \<in> set (docs s). id_key (snd sd) = JInt (id_field activity) \<Longrightarrow>
   create_activity activity s =
     (Inl (HTTPException 400 ''Activity with this ID already exists''), s)"
  by (auto simp: create_activity_def find_one_def matches_id_def find_None_iff
      split: option.splits)

theorem create_activity_conflict_witness:
  "(\<exists>sd \<in> set (docs example_store). id_key (snd sd) = JInt (id_field (example_activity 2)))
   \<and> create_activity (example_activity 2) example_store =
       (Inl (HTTPException 400 ''Activity with this ID already exists''), example_store)"
proof -
  have h: "\<exists>sd \<in> set (docs example_store). id_key (snd sd) = JInt (id_field (example_activity 2))"
    by (simp add: example_store_def id_key_def dict_def example_activity_def)
  show ?thesis using h create_activity_conflict [OF h] by simp
qed

subsection \<open>C8\<close>

text \<open>
  C8 (as amended).  The response of the list endpoint: \<open>get_activities\<close> with its declared
  response model.  When the request is answered with a list, the list has one item for
  each stored document from position \<open>offset\<close> on, in natural order, at most \<open>limit\<close> of
  them when a limit is given and all of them otherwise; item \<open>j\<close> is the response model
  applied to the encoding of the shaped document at position \<open>offset + j\<close>; and the
  request is answered with that list whenever the query parameters are within their
  bounds and every document of the window is encoded and passes the response model.  Each
  item has exactly the fields of \<open>Activity\<close>, in declaration order, so
  \<open>decoded_polyline\<close> is a key of every item: without \<open>include_polyline\<close> its value is null, with it its value is the
  validated encoding of the stored geometry, null when the document has none.  The
  function drops the key, the response model puts it back with null: in the
  specification's example (five documents, \<open>limit=2\<close>, \<open>offset=1\<close>,
  \<open>include_polyline=false\<close>) the response holds the items of the second and the third
  document, each with \<open>decoded_polyline\<close> null, not missing, although both stored
  documents hold a geometry.
\<close>

theorem get_activities_response:
  "(get_activities validate isoformat limit offset include_polyline s = Inr out \<longrightarrow>
     (\<exists>xs. out = JArr xs
        \<and> 0 \<le> offset
        \<and> length xs = (case limit of None \<Rightarrow> length (docs s) - nat offset
                        | Some l \<Rightarrow> min (nat l) (length (docs s) - nat offset))
        \<and> (\<forall>j < length xs. \<exists>enc.
              jsonable_encoder isoformat
                (JObj (shape_activity isoformat include_polyline (docs s ! (nat offset + j))))
                = Inr enc
              \<and> response_model_Activity validate enc = Inr (xs ! j))
        \<and> (\<forall>j < length xs. \<exists>d. xs ! j = JObj d
              \<and> map fst d = map fst Activity_fields
              \<and> (\<not> include_polyline \<longrightarrow> map_of d ''decoded_polyline'' = Some JNull)
              \<and> (include_polyline \<longrightarrow>
                   (\<exists>g. jsonable_encoder isoformat
                           (dict_get (snd (docs s ! (nat offset + j))) ''decoded_polyline'' JNull)
                         = Inr g
                      \<and> map_of d ''decoded_polyline'' =
                          (if g = JNull then Some JNull else validate T_list_list_float g))))))
   \<and> ((case limit of None \<Rightarrow> True | Some l \<Rightarrow> 1 \<le> l \<and> l \<le> 1000) \<and> 0 \<le> offset
        \<and> map (\<lambda>sd. jsonable_encoder isoformat
                        (JObj (shape_activity isoformat include_polyline sd)))
              (find_page (nat offset) (map_option nat limit) s) = map Inr ys
        \<and> map (response_model_Activity validate) ys = map Inr zs
      \<longrightarrow> get_activities validate isoformat limit offset include_polyline s = Inr (JArr zs))"
proof (rule conjI; rule impI)
  assume a: "get_activities validate isoformat limit offset include_polyline s = Inr out"
  let ?page = "find_page (nat offset) (map_option nat limit) s"
  let ?enc = "\<lambda>sd. jsonable_encoder isoformat (JObj (shape_activity isoformat include_polyline sd))"
  from get_activities_Inr [OF a] obtain ys xs where valid: "0 \<le> offset"
    and xs: "out = JArr xs"
    and m: "map ?enc ?page = map Inr ys"
    and r: "map (response_model_Activity validate) ys = map Inr xs"
    by blast
  from m have leny: "length ys = length ?page" by (metis length_map)
  from r have lenx: "length xs = length ys" by (metis length_map)
  have len: "length xs = (case limit of None \<Rightarrow> length (docs s) - nat offset
                     | Some l \<Rightarrow> min (nat l) (length (docs s) - nat offset))"
    unfolding lenx leny length_find_page by (simp split: option.splits)
  have e1: "?enc (docs s ! (nat offset + j)) = Inr (ys ! j)" if lt: "j < length xs" for j
  proof -
    have "map ?enc ?page ! j = map Inr ys ! j" using m by simp
    then have "?enc (?page ! j) = Inr (ys ! j)" using lt lenx leny by simp
    then show ?thesis
      using nth_find_page [of j "nat offset" "map_option nat limit" s] lt lenx leny by simp
  qed
  have e2: "response_model_Activity validate (ys ! j) = Inr (xs ! j)" if lt: "j < length xs" for j
  proof -
    have "map (response_model_Activity validate) ys ! j = map Inr xs ! j" using r by simp
    then show ?thesis using lt lenx by simp
  qed
  have each: "\<exists>enc. ?enc (docs s ! (nat offset + j)) = Inr enc
           \<and> response_model_Activity validate enc = Inr (xs ! j)" if lt: "j < length xs" for j
    by (rule exI [of _ "ys ! j"]) (rule conjI [OF e1 [OF lt] e2 [OF lt]])
  have item: "\<exists>d. xs ! j = JObj d
           \<and> map fst d = map fst Activity_fields
           \<and> (\<not> include_polyline \<longrightarrow> map_of d ''decoded_polyline'' = Some JNull)
           \<and> (include_polyline \<longrightarrow>
                (\<exists>g. jsonable_encoder isoformat
                        (dict_get (snd (docs s ! (nat offset + j))) ''decoded_polyline'' JNull)
                      = Inr g
                   \<and> map_of d ''decoded_polyline'' =
                       (if g = JNull then Some JNull else validate T_list_list_float g)))"
    if lt: "j < length xs" for j
  proof -
    let ?sd = "docs s ! (nat offset + j)"
    from response_model_Activity_Inr [OF e2 [OF lt]] obtain d0 d where y: "ys ! j = JObj d0"
      and x: "xs ! j = JObj d"
      and fs: "map (response_field validate d0) Activity_fields = map Inr d"
      and keys: "map fst d = map fst Activity_fields"
      by blast
    have "(''decoded_polyline'', T_list_list_float, False) \<in> set Activity_fields"
      by (simp add: Activity_fields_def)
    from response_model_lookup [OF fs this]
    have look: "map_of d ''decoded_polyline'' =
       (if dict_get d0 ''decoded_polyline'' JNull = JNull then Some JNull
        else validate T_list_list_float (dict_get d0 ''decoded_polyline'' JNull))" .
    have "jsonable_encoder isoformat (JObj (shape_activity isoformat include_polyline ?sd)) = Inr (JObj d0)"
      using e1 [OF lt] y by simp
    from jsonable_encoder_JObj_lookup [OF this, of "''decoded_polyline''"]
    have g: "jsonable_encoder isoformat
         (if include_polyline then dict_get (snd ?sd) ''decoded_polyline'' JNull else JNull)
       = Inr (dict_get d0 ''decoded_polyline'' JNull)"
      unfolding shape_activity_polyline .
    have a: "\<not> include_polyline \<longrightarrow> map_of d ''decoded_polyline'' = Some JNull"
    proof
      assume "\<not> include_polyline"
      with g have "dict_get d0 ''decoded_polyline'' JNull = JNull" by simp
      with look show "map_of d ''decoded_polyline'' = Some JNull" by simp
    qed
    have b: "include_polyline \<longrightarrow>
                (\<exists>g. jsonable_encoder isoformat
                        (dict_get (snd ?sd) ''decoded_polyline'' JNull) = Inr g
                   \<and> map_of d ''decoded_polyline'' =
                       (if g = JNull then Some JNull else validate T_list_list_float g))"
    proof
      assume "include_polyline"
      with g have "jsonable_encoder isoformat (dict_get (snd ?sd) ''decoded_polyline'' JNull)
          = Inr (dict_get d0 ''decoded_polyline'' JNull)" by simp
      then show "\<exists>g. jsonable_encoder isoformat
                        (dict_get (snd ?sd) ''decoded_polyline'' JNull) = Inr g
                   \<and> map_of d ''decoded_polyline'' =
                       (if g = JNull then Some JNull else validate T_list_list_float g)"
        using look by (intro exI conjI)
    qed
    show ?thesis
      by (rule exI [of _ d]) (rule conjI [OF x conjI [OF keys conjI [OF a b]]])
  qed
  from each have each': "\<forall>j < length xs. \<exists>enc.
           jsonable_encoder isoformat
             (JObj (shape_activity isoformat include_polyline (docs s ! (nat offset + j))))
             = Inr enc
           \<and> response_model_Activity validate enc = Inr (xs ! j)"
    by simp
  from item have item': "\<forall>j < length xs. \<exists>d. xs ! j = JObj d
           \<and> map fst d = map fst Activity_fields
           \<and> (\<not> include_polyline \<longrightarrow> map_of d ''decoded_polyline'' = Some JNull)
           \<and> (include_polyline \<longrightarrow>
                (\<exists>g. jsonable_encoder isoformat
                        (dict_get (snd (docs s ! (nat offset + j))) ''decoded_polyline'' JNull)
                      = Inr g
                   \<and> map_of d ''decoded_polyline'' =
                       (if g = JNull then Some JNull else validate T_list_list_float g)))"
    by simp
  show "\<exists>xs. out = JArr xs
        \<and> 0 \<le> offset
        \<and> length xs = (case limit of None \<Rightarrow> length (docs s) - nat offset
                        | Some l \<Rightarrow> min (nat l) (length (docs s) - nat offset))
        \<and> (\<forall>j < length xs. \<exists>enc.
              jsonable_encoder isoformat
                (JObj (shape_activity isoformat include_polyline (docs s ! (nat offset + j))))
                = Inr enc
              \<and> response_model_Activity validate enc = Inr (xs ! j))
        \<and> (\<forall>j < length xs. \<exists>d. xs ! j = JObj d
              \<and> map fst d = map fst Activity_fields
              \<and> (\<not> include_polyline \<longrightarrow> map_of d ''decoded_polyline'' = Some JNull)
              \<and> (include_polyline \<longrightarrow>
                   (\<exists>g. jsonable_encoder isoformat
                           (dict_get (snd (docs s ! (nat offset + j))) ''decoded_polyline'' JNull)
                         = Inr g
                      \<and> map_of d ''decoded_polyline'' =
                          (if g = JNull then Some JNull else validate T_list_list_float g))))"
    by (rule exI [of _ xs]) (rule conjI [OF xs conjI [OF valid conjI [OF len conjI [OF each' item']]]])
next
  assume h: "(case limit of None \<Rightarrow> True | Some l \<Rightarrow> 1 \<le> l \<and> l \<le> 1000) \<and> 0 \<le> offset
        \<and> map (\<lambda>sd. jsonable_encoder isoformat
                        (JObj (shape_activity isoformat include_polyline sd)))
              (find_page (nat offset) (map_option nat limit) s) = map Inr ys
        \<and> map (response_model_Activity validate) ys = map Inr zs"
  show "get_activities validate isoformat limit offset include_polyline s = Inr (JArr zs)"
    by (rule get_activities_answer [OF conjunct1 [OF h] conjunct1 [OF conjunct2 [OF h]]
          conjunct1 [OF conjunct2 [OF conjunct2 [OF h]]]
          conjunct2 [OF conjunct2 [OF conjunct2 [OF h]]]])
qed

theorem get_activities_response_witness:
  "((case Some (2::int) of None \<Rightarrow> True | Some l \<Rightarrow> 1 \<le> l \<and> l \<le> 1000) \<and> 0 \<le> (1::int)
     \<and> map (\<lambda>sd. jsonable_encoder (\<lambda>t. ''2024-05-01T10:00:00'')
                     (JObj (shape_activity (\<lambda>t. ''2024-05-01T10:00:00'') False sd)))
           (find_page (nat 1) (map_option nat (Some 2)) example_collection)
         = map Inr [example_encoded 2, example_encoded 3]
     \<and> map (response_model_Activity example_validate) [example_encoded 2, example_encoded 3]
         = map Inr [example_served 2, example_served 3])
   \<and> get_activities example_validate (\<lambda>t. ''2024-05-01T10:00:00'') (Some 2) 1 False
       example_collection
     = Inr (JArr [example_served 2, example_served 3])
   \<and> (\<exists>xs. JArr [example_served 2, example_served 3] = JArr xs
     \<and> 0 \<le> (1::int)
     \<and> length xs = (case Some 2 of None \<Rightarrow> length (docs example_collection) - nat 1
                     | Some l \<Rightarrow> min (nat l) (length (docs example_collection) - nat 1))
     \<and> (\<forall>j < length xs. \<exists>enc.
           jsonable_encoder (\<lambda>t. ''2024-05-01T10:00:00'')
             (JObj (shape_activity (\<lambda>t. ''2024-05-01T10:00:00'') False
                (docs example_collection ! (nat 1 + j))))
             = Inr enc
           \<and> response_model_Activity example_validate enc = Inr (xs ! j))
     \<and> (\<forall>j < length xs. \<exists>d. xs ! j = JObj d
           \<and> map fst d = map fst Activity_fields
           \<and> (\<not> False \<longrightarrow> map_of d ''decoded_polyline'' = Some JNull)
           \<and> (False \<longrightarrow>
                (\<exists>g. jsonable_encoder (\<lambda>t. ''2024-05-01T10:00:00'')
                        (dict_get (snd (docs example_collection ! (nat 1 + j)))
                           ''decoded_polyline'' JNull)
                      = Inr g
                   \<and> map_of d ''decoded_polyline'' =
                       (if g = JNull then Some JNull
                        else example_validate T_list_list_float g)))))"
proof -
  note T = get_activities_response [where validate = example_validate
      and isoformat = "\<lambda>t. ''2024-05-01T10:00:00''" and limit = "Some 2" and offset = 1
      and include_polyline = False and s = example_collection
      and out = "JArr [example_served 2, example_served 3]"
      and ys = "[example_encoded 2, example_encoded 3]"
      and zs = "[example_served 2, example_served 3]"]
  have v: "case Some (2::int) of None \<Rightarrow> True | Some l \<Rightarrow> 1 \<le> l \<and> l \<le> 1000" by simp
  have o: "0 \<le> (1::int)" by simp
  note h2 = conjI [OF v conjI [OF o conjI [OF example_list_encoded example_list_served]]]
  have h: "get_activities example_validate (\<lambda>t. ''2024-05-01T10:00:00'') (Some 2) 1 False
       example_collection
     = Inr (JArr [example_served 2, example_served 3])"
    by (rule mp [OF conjunct2 [OF T] h2])
  show ?thesis
    by (rule conjI [OF h2 conjI [OF h mp [OF conjunct1 [OF T] h]]])
qed

theorem decoded_polyline_null_counterexample:
  "get_activities example_validate (\<lambda>t. ''2024-05-01T10:00:00'') (Some 2) 1 False
       example_collection
     = Inr (JArr [example_served 2, example_served 3])
   \<and> docs example_collection ! 1 = example_stored 2
   \<and> docs example_collection ! 2 = example_stored 3
   \<and> map_of (snd (example_stored 2)) ''decoded_polyline''
       = Some (JArr [JArr [JFloat 0x4043400000000000, JFloat 0xC05E0CCCCCCCCCCD]])
   \<and> example_served 2 = JObj (dict ((example_route_activity 102)\<lparr>decoded_polyline := None\<rparr>))
   \<and> example_served 3 = JObj (dict ((example_route_activity 103)\<lparr>decoded_polyline := None\<rparr>))
   \<and> ''decoded_polyline''
       \<in> fst ` set (dict ((example_route_activity 102)\<lparr>decoded_polyline := None\<rparr>))
   \<and> ''decoded_polyline''
       \<in> fst ` set (dict ((example_route_activity 103)\<lparr>decoded_polyline := None\<rparr>))
   \<and> map_of (dict ((example_route_activity 102)\<lparr>decoded_polyline := None\<rparr>)) ''decoded_polyline''
       = Some JNull
   \<and> map_of (dict ((example_route_activity 103)\<lparr>decoded_polyline := None\<rparr>)) ''decoded_polyline''
       = Some JNull"
proof -
  have a: "docs example_collection ! 1 = example_stored 2
     \<and> docs example_collection ! 2 = example_stored 3"
    by (simp add: example_collection_def numeral_2_eq_2)
  have b: "map_of (snd (example_stored 2)) ''decoded_polyline''
       = Some (JArr [JArr [JFloat 0x4043400000000000, JFloat 0xC05E0CCCCCCCCCCD]])"
    by (simp add: example_stored_def dict_def optional_def example_route_activity_def
        example_activity_def)
  have c: "example_served 2 = JObj (dict ((example_route_activity 102)\<lparr>decoded_polyline := None\<rparr>))
     \<and> example_served 3 = JObj (dict ((example_route_activity 103)\<lparr>decoded_polyline := None\<rparr>))"
    by (simp add: example_served_def)
  have d: "''decoded_polyline'' \<in> fst ` set (dict (a\<lparr>decoded_polyline := None\<rparr>))" for a
    by (simp add: dict_def)
  have e: "map_of (dict (a\<lparr>decoded_polyline := None\<rparr>)) ''decoded_polyline'' = Some JNull" for a
    by (simp add: dict_def optional_def)
  show ?thesis
    using example_list_response a b c d e by simp
qed

subsection \<open>C9\<close>

text \<open>
  C9.  A record whose map (or \<open>{}\<close> when it has none) is a dict whose
  \<open>summary_polyline\<close> is missing, \<open>None\<close> or the empty string, and whose required fields
  are present, is built and stored with \<open>decoded_polyline\<close> null and no error, whatever
  \<open>polyline.decode\<close> would do: the statement holds for every decoder, also one that
  always raises, so the decoder is not called.
\<close>

theorem empty_polyline_null_geometry:
  assumes "py_get (JObj r) ''map'' (JObj []) = Inr map_data"
    and "py_get map_data ''summary_polyline'' JNull = Inr p"
    and "p = JNull \<or> p = JStr []"
    and "map_of r ''id'' = Some v_id"
    and "map_of r ''name'' = Some v_name"
    and "map_of r ''type'' = Some v_type"
    and "map_of r ''start_date'' = Some (JStr sd)" and "strptime_utc lib sd = Some t1"
    and "map_of r ''start_date_local'' = Some (JStr sl)" and "strptime_offset lib sl = Some t2"
    and "ids_unique (db st)"
  shows "\<exists>doc s' oid f.
           activity_document lib (JObj r) = Inr doc
         \<and> map_of doc ''polyline'' = Some p
         \<and> map_of doc ''decoded_polyline'' = Some JNull
         \<and> save_activity lib (JObj r) st = (None, emit (Info_saved v_id v_name) (st\<lparr>db := s'\<rparr>))
         \<and> filter (matches_id v_id) (docs s') = [(oid, f)]
         \<and> map_of f ''decoded_polyline'' = Some JNull"
proof -
  have m: "py_get (dict_get r ''map'' (JObj [])) ''summary_polyline'' JNull = Inr p"
    using assms(1,2) by simp
  have t: "(if truthy p then polyline_decode lib p else Inr JNull) = Inr JNull"
    using assms(3) by auto
  note built = activity_document_JObjI [OF m t assms(4-10)]
  let ?doc = "[(''id'', v_id), (''name'', v_name), (''type'', v_type),
           (''distance'', dict_get r ''distance'' JNull),
           (''moving_time'', dict_get r ''moving_time'' JNull),
           (''elapsed_time'', dict_get r ''elapsed_time'' JNull),
           (''total_elevation_gain'', dict_get r ''total_elevation_gain'' JNull),
           (''sport_type'', dict_get r ''sport_type'' JNull),
           (''start_date'', JDate t1), (''start_date_local'', JDate t2),
           (''timezone'', dict_get r ''timezone'' JNull),
           (''map'', dict_get r ''map'' (JObj [])),
           (''polyline'', p), (''decoded_polyline'', JNull),
           (''gear'', dict_get r ''gear'' JNull),
           (''average_speed'', dict_get r ''average_speed'' JNull),
           (''max_speed'', dict_get r ''max_speed'' JNull),
           (''average_cadence'', dict_get r ''average_cadence'' JNull),
           (''average_heartrate'', dict_get r ''average_heartrate'' JNull),
           (''max_heartrate'', dict_get r ''max_heartrate'' JNull),
           (''calories'', dict_get r ''calories'' JNull),
           (''raw_data'', JObj r)]"
  have k: "id_key ?doc = v_id" by (simp add: id_key_def)
  have dp: "map_of ?doc ''decoded_polyline'' = Some JNull" by simp
  have pl: "map_of ?doc ''polyline'' = Some p" by simp
  obtain n s' oid f where
    n: "py_item (JObj r) ''name'' = Inr n"
    and sv: "save_activity lib (JObj r) st = (None, emit (Info_saved (id_key ?doc) n) (st\<lparr>db := s'\<rparr>))"
    and fl: "filter (matches_id (id_key ?doc)) (docs s') = [(oid, f)]"
    and al: "\<forall>k x. map_of ?doc k = Some x \<longrightarrow> map_of f k = Some x"
    using save_activity_stored [OF built assms(11)] by blast
  from n have "n = v_name" using assms(5) by simp
  with sv have sv': "save_activity lib (JObj r) st = (None, emit (Info_saved v_id v_name) (st\<lparr>db := s'\<rparr>))"
    unfolding k by simp
  from fl have fl': "filter (matches_id v_id) (docs s') = [(oid, f)]"
    unfolding k .
  from al dp have dp': "map_of f ''decoded_polyline'' = Some JNull" by blast
  show ?thesis
    by (intro exI conjI) (rule built pl dp sv' fl' dp')+
qed

theorem empty_polyline_null_geometry_witness:
  "py_get (JObj example_indoor_fields) ''map'' (JObj [])
     = Inr (JObj [(''id'', JStr ''a9''), (''summary_polyline'', JStr [])])
   \<and> py_get (JObj [(''id'', JStr ''a9''), (''summary_polyline'', JStr [])])
        ''summary_polyline'' JNull = Inr (JStr [])
   \<and> polyline_decode example_lib (JStr []) = Inl (LibraryError ''polyline'')
   \<and> map_of example_indoor_fields ''id'' = Some (JInt 9)
   \<and> map_of example_indoor_fields ''name'' = Some (JStr ''Yoga'')
   \<and> map_of example_indoor_fields ''type'' = Some (JStr ''Yoga'')
   \<and> map_of example_indoor_fields ''start_date'' = Some (JStr ''2024-05-01T10:00:00Z'')
   \<and> strptime_utc example_lib ''2024-05-01T10:00:00Z'' = Some 1714557600000
   \<and> map_of example_indoor_fields ''start_date_local'' = Some (JStr ''2024-05-01T12:00:00Z'')
   \<and> strptime_offset example_lib ''2024-05-01T12:00:00Z'' = Some 1714564800000
   \<and> ids_unique (db (example_state example_store))
   \<and> (\<exists>doc s' oid f.
           activity_document example_lib (JObj example_indoor_fields) = Inr doc
         \<and> map_of doc ''polyline'' = Some (JStr [])
         \<and> map_of doc ''decoded_polyline'' = Some JNull
         \<and> save_activity example_lib (JObj example_indoor_fields) (example_state example_store)
             = (None, emit (Info_saved (JInt 9) (JStr ''Yoga''))
                  ((example_state example_store)\<lparr>db := s'\<rparr>))
         \<and> filter (matches_id (JInt 9)) (docs s') = [(oid, f)]
         \<and> map_of f ''decoded_polyline'' = Some JNull)"
proof -
  have h1: "py_get (JObj example_indoor_fields) ''map'' (JObj [])
     = Inr (JObj [(''id'', JStr ''a9''), (''summary_polyline'', JStr [])])"
    by (simp add: example_indoor_fields_def dict_get_def)
  have h2: "py_get (JObj [(''id'', JStr ''a9''), (''summary_polyline'', JStr [])])
        ''summary_polyline'' JNull = Inr (JStr [])"
    by (simp add: dict_get_def)
  have h3: "JStr [] = JNull \<or> JStr [] = JStr []" by simp
  have h4: "map_of example_indoor_fields ''id'' = Some (JInt 9)"
    and h5: "map_of example_indoor_fields ''name'' = Some (JStr ''Yoga'')"
    and h6: "map_of example_indoor_fields ''type'' = Some (JStr ''Yoga'')"
    and h7: "map_of example_indoor_fields ''start_date'' = Some (JStr ''2024-05-01T10:00:00Z'')"
    and h9: "map_of example_indoor_fields ''start_date_local'' = Some (JStr ''2024-05-01T12:00:00Z'')"
    by (simp_all add: example_indoor_fields_def)
  have h8: "strptime_utc example_lib ''2024-05-01T10:00:00Z'' = Some 1714557600000"
    and h10: "strptime_offset example_lib ''2024-05-01T12:00:00Z'' = Some 1714564800000"
    and d: "polyline_decode example_lib (JStr []) = Inl (LibraryError ''polyline'')"
    by (simp_all add: example_lib_def)
  have h11: "ids_unique (db (example_state example_store))"
    by (simp add: example_state_def example_store_unique)
  show ?thesis
    using h1 h2 h4 h5 h6 h7 h8 h9 h10 h11 d
      empty_polyline_null_geometry [OF h1 h2 h3 h4 h5 h6 h7 h8 h9 h10 h11]
    by simp
qed

subsection \<open>C10\<close>

text \<open>
  C10 (as amended).  A document is built, and the collection changed, only if the record
  is a dict with \<open>id\<close>, \<open>name\<close>, \<open>type\<close>, a string \<open>start_date\<close> that the first format
  parses and a string \<open>start_date_local\<close> that the second format parses.  Each of
  \<open>distance\<close>, the two durations, the elevation gain, \<open>sport_type\<close>, \<open>timezone\<close>, \<open>gear\<close>
  and the performance metrics may be absent, and the document then has null in that
  field; an absent \<open>map\<close> is stored as the empty document \<open>{}\<close>, with \<open>polyline\<close> and
  \<open>decoded_polyline\<close> null.  Conversely, a record with the five required fields is built
  and stored, whatever optional fields it lacks, when its \<open>map\<close> is absent or a dict
  whose \<open>summary_polyline\<close> is absent, empty or decoded by \<open>polyline.decode\<close> without an
  exception (the collection having pairwise different \<open>id\<close> keys): the collection then
  holds exactly one document with the record's \<open>id\<close>, which has every field of the built
  document, and null in each absent optional field.
\<close>

theorem required_and_optional_fields:
  "(activity_document lib activity = Inr doc \<longrightarrow>
      (\<exists>r v_id v_name v_type sd t1 sl t2.
          activity = JObj r
        \<and> map_of r ''id'' = Some v_id \<and> map_of r ''name'' = Some v_name
        \<and> map_of r ''type'' = Some v_type
        \<and> map_of r ''start_date'' = Some (JStr sd) \<and> strptime_utc lib sd = Some t1
        \<and> map_of r ''start_date_local'' = Some (JStr sl) \<and> strptime_offset lib sl = Some t2
        \<and> (\<forall>k \<in> {''distance'', ''moving_time'', ''elapsed_time'', ''total_elevation_gain'',
                   ''sport_type'', ''timezone'', ''gear'', ''average_speed'', ''max_speed'',
                   ''average_cadence'', ''average_heartrate'', ''max_heartrate'', ''calories''}.
              map_of r k = None \<longrightarrow> map_of doc k = Some JNull)
        \<and> (map_of r ''map'' = None \<longrightarrow>
              map_of doc ''map'' = Some (JObj []) \<and> map_of doc ''polyline'' = Some JNull
            \<and> map_of doc ''decoded_polyline'' = Some JNull)))
   \<and> (db (snd (save_activity lib activity st)) \<noteq> db st \<longrightarrow>
        (\<exists>built. activity_document lib activity = Inr built))
   \<and> (map_of q ''id'' = Some q_id \<and> map_of q ''name'' = Some q_name
        \<and> map_of q ''type'' = Some q_type
        \<and> map_of q ''start_date'' = Some (JStr qd) \<and> strptime_utc lib qd = Some u1
        \<and> map_of q ''start_date_local'' = Some (JStr ql) \<and> strptime_offset lib ql = Some u2
        \<and> py_get (dict_get q ''map'' (JObj [])) ''summary_polyline'' JNull = Inr p
        \<and> (truthy p \<longrightarrow> polyline_decode lib p = Inr g)
        \<and> ids_unique (db st) \<longrightarrow>
        (\<exists>built s' oid f.
            activity_document lib (JObj q) = Inr built
          \<and> save_activity lib (JObj q) st = (None, emit (Info_saved q_id q_name) (st\<lparr>db := s'\<rparr>))
          \<and> filter (matches_id q_id) (docs s') = [(oid, f)]
          \<and> (\<forall>k x. map_of built k = Some x \<longrightarrow> map_of f k = Some x)
          \<and> (\<forall>k \<in> {''distance'', ''moving_time'', ''elapsed_time'', ''total_elevation_gain'',
                   ''sport_type'', ''timezone'', ''gear'', ''average_speed'', ''max_speed'',
                   ''average_cadence'', ''average_heartrate'', ''max_heartrate'', ''calories''}.
                map_of q k = None \<longrightarrow> map_of f k = Some JNull)
          \<and> (map_of q ''map'' = None \<longrightarrow>
                map_of f ''map'' = Some (JObj []) \<and> map_of f ''polyline'' = Some JNull
              \<and> map_of f ''decoded_polyline'' = Some JNull)))"
proof (intro conjI impI)
  assume b: "activity_document lib activity = Inr doc"
  then obtain r where r: "activity = JObj r"
    using activity_document_dict by blast
  from activity_document_JObjD [of lib r doc] b r
  obtain polyline_data decoded v_id v_name v_type sd t1 sl t2 where
    f: "py_get (dict_get r ''map'' (JObj [])) ''summary_polyline'' JNull = Inr polyline_data"
      "(if truthy polyline_data then polyline_decode lib polyline_data else Inr JNull) = Inr decoded"
      "map_of r ''id'' = Some v_id" "map_of r ''name'' = Some v_name"
      "map_of r ''type'' = Some v_type"
      "map_of r ''start_date'' = Some (JStr sd)" "strptime_utc lib sd = Some t1"
      "map_of r ''start_date_local'' = Some (JStr sl)" "strptime_offset lib sl = Some t2"
    and d: "doc =
          [(''id'', v_id), (''name'', v_name), (''type'', v_type),
           (''distance'', dict_get r ''distance'' JNull),
           (''moving_time'', dict_get r ''moving_time'' JNull),
           (''elapsed_time'', dict_get r ''elapsed_time'' JNull),
           (''total_elevation_gain'', dict_get r ''total_elevation_gain'' JNull),
           (''sport_type'', dict_get r ''sport_type'' JNull),
           (''start_date'', JDate t1), (''start_date_local'', JDate t2),
           (''timezone'', dict_get r ''timezone'' JNull),
           (''map'', dict_get r ''map'' (JObj [])),
           (''polyline'', polyline_data), (''decoded_polyline'', decoded),
           (''gear'', dict_get r ''gear'' JNull),
           (''average_speed'', dict_get r ''average_speed'' JNull),
           (''max_speed'', dict_get r ''max_speed'' JNull),
           (''average_cadence'', dict_get r ''average_cadence'' JNull),
           (''average_heartrate'', dict_get r ''average_heartrate'' JNull),
           (''max_heartrate'', dict_get r ''max_heartrate'' JNull),
           (''calories'', dict_get r ''calories'' JNull),
           (''raw_data'', JObj r)]"
    by blast
  have opt: "\<forall>k \<in> {''distance'', ''moving_time'', ''elapsed_time'', ''total_elevation_gain'',
                   ''sport_type'', ''timezone'', ''gear'', ''average_speed'', ''max_speed'',
                   ''average_cadence'', ''average_heartrate'', ''max_heartrate'', ''calories''}.
              map_of r k = None \<longrightarrow> map_of doc k = Some JNull"
    by (simp add: d dict_get_def)
  have mp: "map_of r ''map'' = None \<longrightarrow>
              map_of doc ''map'' = Some (JObj []) \<and> map_of doc ''polyline'' = Some JNull
            \<and> map_of doc ''decoded_polyline'' = Some JNull"
    using f(1,2) by (auto simp: d dict_get_def)
  show "(\<exists>r v_id v_name v_type sd t1 sl t2.
          activity = JObj r
        \<and> map_of r ''id'' = Some v_id \<and> map_of r ''name'' = Some v_name
        \<and> map_of r ''type'' = Some v_type
        \<and> map_of r ''start_date'' = Some (JStr sd) \<and> strptime_utc lib sd = Some t1
        \<and> map_of r ''start_date_local'' = Some (JStr sl) \<and> strptime_offset lib sl = Some t2
        \<and> (\<forall>k \<in> {''distance'', ''moving_time'', ''elapsed_time'', ''total_elevation_gain'',
                   ''sport_type'', ''timezone'', ''gear'', ''average_speed'', ''max_speed'',
                   ''average_cadence'', ''average_heartrate'', ''max_heartrate'', ''calories''}.
              map_of r k = None \<longrightarrow> map_of doc k = Some JNull)
        \<and> (map_of r ''map'' = None \<longrightarrow>
              map_of doc ''map'' = Some (JObj []) \<and> map_of doc ''polyline'' = Some JNull
            \<and> map_of doc ''decoded_polyline'' = Some JNull))"
    by (intro exI conjI) (rule r f(3-9) opt mp)+
next
  assume "db (snd (save_activity lib activity st)) \<noteq> db st"
  then show "\<exists>built. activity_document lib activity = Inr built"
    by (cases "activity_document lib activity") (simp_all add: db_save_activity)
next
  assume h: "map_of q ''id'' = Some q_id \<and> map_of q ''name'' = Some q_name
        \<and> map_of q ''type'' = Some q_type
        \<and> map_of q ''start_date'' = Some (JStr qd) \<and> strptime_utc lib qd = Some u1
        \<and> map_of q ''start_date_local'' = Some (JStr ql) \<and> strptime_offset lib ql = Some u2
        \<and> py_get (dict_get q ''map'' (JObj [])) ''summary_polyline'' JNull = Inr p
        \<and> (truthy p \<longrightarrow> polyline_decode lib p = Inr g)
        \<and> ids_unique (db st)"
  then have m: "py_get (dict_get q ''map'' (JObj [])) ''summary_polyline'' JNull = Inr p"
    by simp
  from h have t: "(if truthy p then polyline_decode lib p else Inr JNull)
      = Inr (if truthy p then g else JNull)"
    by simp
  from h have q: "map_of q ''id'' = Some q_id" "map_of q ''name'' = Some q_name"
    "map_of q ''type'' = Some q_type"
    "map_of q ''start_date'' = Some (JStr qd)" "strptime_utc lib qd = Some u1"
    "map_of q ''start_date_local'' = Some (JStr ql)" "strptime_offset lib ql = Some u2"
    by simp_all
  have built: "activity_document lib (JObj q) = Inr
          [(''id'', q_id), (''name'', q_name), (''type'', q_type),
           (''distance'', dict_get q ''distance'' JNull),
           (''moving_time'', dict_get q ''moving_time'' JNull),
           (''elapsed_time'', dict_get q ''elapsed_time'' JNull),
           (''total_elevation_gain'', dict_get q ''total_elevation_gain'' JNull),
           (''sport_type'', dict_get q ''sport_type'' JNull),
           (''start_date'', JDate u1), (''start_date_local'', JDate u2),
           (''timezone'', dict_get q ''timezone'' JNull),
           (''map'', dict_get q ''map'' (JObj [])),
           (''polyline'', p), (''decoded_polyline'', (if truthy p then g else JNull)),
           (''gear'', dict_get q ''gear'' JNull),
           (''average_speed'', dict_get q ''average_speed'' JNull),
           (''max_speed'', dict_get q ''max_speed'' JNull),
           (''average_cadence'', dict_get q ''average_cadence'' JNull),
           (''average_heartrate'', dict_get q ''average_heartrate'' JNull),
           (''max_heartrate'', dict_get q ''max_heartrate'' JNull),
           (''calories'', dict_get q ''calories'' JNull),
           (''raw_data'', JObj q)]" (is "_ = Inr ?doc")
    by (rule activity_document_JObjI [OF m t q])
  have k: "id_key ?doc = q_id" by (simp add: id_key_def)
  from h have u: "ids_unique (db st)" by simp
  obtain n s' oid f where
    n: "py_item (JObj q) ''name'' = Inr n"
    and sv: "save_activity lib (JObj q) st = (None, emit (Info_saved (id_key ?doc) n) (st\<lparr>db := s'\<rparr>))"
    and fl: "filter (matches_id (id_key ?doc)) (docs s') = [(oid, f)]"
    and al: "\<forall>k x. map_of ?doc k = Some x \<longrightarrow> map_of f k = Some x"
    using save_activity_stored [OF built u] by blast
  from n h have "n = q_name" by simp
  with sv have sv': "save_activity lib (JObj q) st = (None, emit (Info_saved q_id q_name) (st\<lparr>db := s'\<rparr>))"
    unfolding k by simp
  from fl have fl': "filter (matches_id q_id) (docs s') = [(oid, f)]"
    unfolding k .
  have opt_doc: "\<forall>k \<in> {''distance'', ''moving_time'', ''elapsed_time'', ''total_elevation_gain'',
                   ''sport_type'', ''timezone'', ''gear'', ''average_speed'', ''max_speed'',
                   ''average_cadence'', ''average_heartrate'', ''max_heartrate'', ''calories''}.
                map_of q k = None \<longrightarrow> map_of ?doc k = Some JNull"
    by (simp add: dict_get_def)
  have opt: "\<forall>k \<in> {''distance'', ''moving_time'', ''elapsed_time'', ''total_elevation_gain'',
                   ''sport_type'', ''timezone'', ''gear'', ''average_speed'', ''max_speed'',
                   ''average_cadence'', ''average_heartrate'', ''max_heartrate'', ''calories''}.
                map_of q k = None \<longrightarrow> map_of f k = Some JNull"
  proof (intro ballI impI)
    fix k assume kin: "k \<in> {''distance'', ''moving_time'', ''elapsed_time'', ''total_elevation_gain'',
                   ''sport_type'', ''timezone'', ''gear'', ''average_speed'', ''max_speed'',
                   ''average_cadence'', ''average_heartrate'', ''max_heartrate'', ''calories''}"
      and qn: "map_of q k = None"
    have "map_of ?doc k = Some JNull"
      by (rule mp [OF bspec [OF opt_doc kin] qn])
    then show "map_of f k = Some JNull" by (rule al [rule_format])
  qed
  have mp: "map_of q ''map'' = None \<longrightarrow>
                map_of f ''map'' = Some (JObj []) \<and> map_of f ''polyline'' = Some JNull
              \<and> map_of f ''decoded_polyline'' = Some JNull"
  proof
    assume a: "map_of q ''map'' = None"
    with m have p: "p = JNull" by (simp add: dict_get_def)
    have "map_of ?doc ''map'' = Some (JObj [])" using a by (simp add: dict_get_def)
    then have f1: "map_of f ''map'' = Some (JObj [])" by (rule al [rule_format])
    have "map_of ?doc ''polyline'' = Some JNull" using p by simp
    then have f2: "map_of f ''polyline'' = Some JNull" by (rule al [rule_format])
    have "map_of ?doc ''decoded_polyline'' = Some JNull" using p by simp
    then have f3: "map_of f ''decoded_polyline'' = Some JNull" by (rule al [rule_format])
    show "map_of f ''map'' = Some (JObj []) \<and> map_of f ''polyline'' = Some JNull
              \<and> map_of f ''decoded_polyline'' = Some JNull"
      by (rule conjI [OF f1 conjI [OF f2 f3]])
  qed
  show "(\<exists>built s' oid f.
            activity_document lib (JObj q) = Inr built
          \<and> save_activity lib (JObj q) st = (None, emit (Info_saved q_id q_name) (st\<lparr>db := s'\<rparr>))
          \<and> filter (matches_id q_id) (docs s') = [(oid, f)]
          \<and> (\<forall>k x. map_of built k = Some x \<longrightarrow> map_of f k = Some x)
          \<and> (\<forall>k \<in> {''distance'', ''moving_time'', ''elapsed_time'', ''total_elevation_gain'',
                   ''sport_type'', ''timezone'', ''gear'', ''average_speed'', ''max_speed'',
                   ''average_cadence'', ''average_heartrate'', ''max_heartrate'', ''calories''}.
                map_of q k = None \<longrightarrow> map_of f k = Some JNull)
          \<and> (map_of q ''map'' = None \<longrightarrow>
                map_of f ''map'' = Some (JObj []) \<and> map_of f ''polyline'' = Some JNull
              \<and> map_of f ''decoded_polyline'' = Some JNull))"
    by (intro exI conjI) (rule built sv' fl' al opt mp)+
qed

theorem required_and_optional_fields_witness:
  "activity_document example_lib (JObj example_route_fields) = Inr example_route_document
   \<and> db (snd (save_activity example_lib (JObj example_route_fields) (example_state example_store)))
        \<noteq> db (example_state example_store)
   \<and> (map_of example_route_fields ''id'' = Some (JInt 11)
        \<and> map_of example_route_fields ''name'' = Some (JStr ''Route'')
        \<and> map_of example_route_fields ''type'' = Some (JStr ''Ride'')
        \<and> map_of example_route_fields ''start_date'' = Some (JStr ''2024-05-01T10:00:00Z'')
        \<and> strptime_utc example_lib ''2024-05-01T10:00:00Z'' = Some 1714557600000
        \<and> map_of example_route_fields ''start_date_local'' = Some (JStr ''2024-05-01T12:00:00Z'')
        \<and> strptime_offset example_lib ''2024-05-01T12:00:00Z'' = Some 1714564800000
        \<and> py_get (dict_get example_route_fields ''map'' (JObj [])) ''summary_polyline'' JNull
            = Inr (JStr ''_p~iF~ps|U'')
        \<and> truthy (JStr ''_p~iF~ps|U'')
        \<and> polyline_decode example_lib (JStr ''_p~iF~ps|U'')
            = Inr (JArr [JArr [JFloat 0x4043400000000000, JFloat 0xC05E0CCCCCCCCCCD]])
        \<and> ids_unique (db (example_state example_store)))
   \<and> (\<exists>r v_id v_name v_type sd t1 sl t2.
          JObj example_route_fields = JObj r
        \<and> map_of r ''id'' = Some v_id \<and> map_of r ''name'' = Some v_name
        \<and> map_of r ''type'' = Some v_type
        \<and> map_of r ''start_date'' = Some (JStr sd) \<and> strptime_utc example_lib sd = Some t1
        \<and> map_of r ''start_date_local'' = Some (JStr sl) \<and> strptime_offset example_lib sl = Some t2
        \<and> (\<forall>k \<in> {''distance'', ''moving_time'', ''elapsed_time'', ''total_elevation_gain'',
                   ''sport_type'', ''timezone'', ''gear'', ''average_speed'', ''max_speed'',
                   ''average_cadence'', ''average_heartrate'', ''max_heartrate'', ''calories''}.
              map_of r k = None \<longrightarrow> map_of example_route_document k = Some JNull)
        \<and> (map_of r ''map'' = None \<longrightarrow>
              map_of example_route_document ''map'' = Some (JObj [])
            \<and> map_of example_route_document ''polyline'' = Some JNull
            \<and> map_of example_route_document ''decoded_polyline'' = Some JNull))
   \<and> (\<exists>built. activity_document example_lib (JObj example_route_fields) = Inr built)
   \<and> (\<exists>built s' oid f.
            activity_document example_lib (JObj example_route_fields) = Inr built
          \<and> save_activity example_lib (JObj example_route_fields) (example_state example_store)
              = (None, emit (Info_saved (JInt 11) (JStr ''Route''))
                   ((example_state example_store)\<lparr>db := s'\<rparr>))
          \<and> filter (matches_id (JInt 11)) (docs s') = [(oid, f)]
          \<and> (\<forall>k x. map_of built k = Some x \<longrightarrow> map_of f k = Some x)
          \<and> (\<forall>k \<in> {''distance'', ''moving_time'', ''elapsed_time'', ''total_elevation_gain'',
                   ''sport_type'', ''timezone'', ''gear'', ''average_speed'', ''max_speed'',
                   ''average_cadence'', ''average_heartrate'', ''max_heartrate'', ''calories''}.
                map_of example_route_fields k = None \<longrightarrow> map_of f k = Some JNull)
          \<and> (map_of example_route_fields ''map'' = None \<longrightarrow>
                map_of f ''map'' = Some (JObj []) \<and> map_of f ''polyline'' = Some JNull
              \<and> map_of f ''decoded_polyline'' = Some JNull))"
proof -
  note T = required_and_optional_fields [where lib = example_lib
      and activity = "JObj example_route_fields" and doc = example_route_document
      and st = "example_state example_store" and q = example_route_fields
      and q_id = "JInt 11" and q_name = "JStr ''Route''" and q_type = "JStr ''Ride''"
      and qd = "''2024-05-01T10:00:00Z''" and ?u1.0 = 1714557600000
      and ql = "''2024-05-01T12:00:00Z''" and ?u2.0 = 1714564800000
      and p = "JStr ''_p~iF~ps|U''"
      and g = "JArr [JArr [JFloat 0x4043400000000000, JFloat 0xC05E0CCCCCCCCCCD]]"]
  have h1: "activity_document example_lib (JObj example_route_fields) = Inr example_route_document"
    by (rule example_route_activity_document)
  have h3: "map_of example_route_fields ''id'' = Some (JInt 11)
        \<and> map_of example_route_fields ''name'' = Some (JStr ''Route'')
        \<and> map_of example_route_fields ''type'' = Some (JStr ''Ride'')
        \<and> map_of example_route_fields ''start_date'' = Some (JStr ''2024-05-01T10:00:00Z'')
        \<and> strptime_utc example_lib ''2024-05-01T10:00:00Z'' = Some 1714557600000
        \<and> map_of example_route_fields ''start_date_local'' = Some (JStr ''2024-05-01T12:00:00Z'')
        \<and> strptime_offset example_lib ''2024-05-01T12:00:00Z'' = Some 1714564800000
        \<and> py_get (dict_get example_route_fields ''map'' (JObj [])) ''summary_polyline'' JNull
            = Inr (JStr ''_p~iF~ps|U'')
        \<and> (truthy (JStr ''_p~iF~ps|U'') \<longrightarrow>
              polyline_decode example_lib (JStr ''_p~iF~ps|U'') = Inr (JArr [JArr [JFloat 0x4043400000000000, JFloat 0xC05E0CCCCCCCCCCD]]))
        \<and> ids_unique (db (example_state example_store))"
    by (simp add: example_route_fields_def example_lib_def example_state_def example_store_unique
        dict_get_def)
  have h3': "map_of example_route_fields ''id'' = Some (JInt 11)
        \<and> map_of example_route_fields ''name'' = Some (JStr ''Route'')
        \<and> map_of example_route_fields ''type'' = Some (JStr ''Ride'')
        \<and> map_of example_route_fields ''start_date'' = Some (JStr ''2024-05-01T10:00:00Z'')
        \<and> strptime_utc example_lib ''2024-05-01T10:00:00Z'' = Some 1714557600000
        \<and> map_of example_route_fields ''start_date_local'' = Some (JStr ''2024-05-01T12:00:00Z'')
        \<and> strptime_offset example_lib ''2024-05-01T12:00:00Z'' = Some 1714564800000
        \<and> py_get (dict_get example_route_fields ''map'' (JObj [])) ''summary_polyline'' JNull
            = Inr (JStr ''_p~iF~ps|U'')
        \<and> truthy (JStr ''_p~iF~ps|U'')
        \<and> polyline_decode example_lib (JStr ''_p~iF~ps|U'')
            = Inr (JArr [JArr [JFloat 0x4043400000000000, JFloat 0xC05E0CCCCCCCCCCD]])
        \<and> ids_unique (db (example_state example_store))"
    by (simp add: example_route_fields_def example_lib_def example_state_def example_store_unique
        dict_get_def)
  have c1: "(\<exists>r v_id v_name v_type sd t1 sl t2.
          JObj example_route_fields = JObj r
        \<and> map_of r ''id'' = Some v_id \<and> map_of r ''name'' = Some v_name
        \<and> map_of r ''type'' = Some v_type
        \<and> map_of r ''start_date'' = Some (JStr sd) \<and> strptime_utc example_lib sd = Some t1
        \<and> map_of r ''start_date_local'' = Some (JStr sl) \<and> strptime_offset example_lib sl = Some t2
        \<and> (\<forall>k \<in> {''distance'', ''moving_time'', ''elapsed_time'', ''total_elevation_gain'',
                   ''sport_type'', ''timezone'', ''gear'', ''average_speed'', ''max_speed'',
                   ''average_cadence'', ''average_heartrate'', ''max_heartrate'', ''calories''}.
              map_of r k = None \<longrightarrow> map_of example_route_document k = Some JNull)
        \<and> (map_of r ''map'' = None \<longrightarrow>
              map_of example_route_document ''map'' = Some (JObj [])
            \<and> map_of example_route_document ''polyline'' = Some JNull
            \<and> map_of example_route_document ''decoded_polyline'' = Some JNull))"
    by (rule mp [OF conjunct1 [OF T] h1])
  have c3: "(\<exists>built s' oid f.
            activity_document example_lib (JObj example_route_fields) = Inr built
          \<and> save_activity example_lib (JObj example_route_fields) (example_state example_store)
              = (None, emit (Info_saved (JInt 11) (JStr ''Route''))
                   ((example_state example_store)\<lparr>db := s'\<rparr>))
          \<and> filter (matches_id (JInt 11)) (docs s') = [(oid, f)]
          \<and> (\<forall>k x. map_of built k = Some x \<longrightarrow> map_of f k = Some x)
          \<and> (\<forall>k \<in> {''distance'', ''moving_time'', ''elapsed_time'', ''total_elevation_gain'',
                   ''sport_type'', ''timezone'', ''gear'', ''average_speed'', ''max_speed'',
                   ''average_cadence'', ''average_heartrate'', ''max_heartrate'', ''calories''}.
                map_of example_route_fields k = None \<longrightarrow> map_of f k = Some JNull)
          \<and> (map_of example_route_fields ''map'' = None \<longrightarrow>
                map_of f ''map'' = Some (JObj []) \<and> map_of f ''polyline'' = Some JNull
              \<and> map_of f ''decoded_polyline'' = Some JNull))"
    by (rule mp [OF conjunct2 [OF conjunct2 [OF T]] h3])
  then obtain s' oid f where
    sv: "save_activity example_lib (JObj example_route_fields) (example_state example_store)
              = (None, emit (Info_saved (JInt 11) (JStr ''Route''))
                   ((example_state example_store)\<lparr>db := s'\<rparr>))"
    and fl: "filter (matches_id (JInt 11)) (docs s') = [(oid, f)]"
    by blast
  have "filter (matches_id (JInt 11)) (docs example_store) = []"
    by (simp add: example_store_def matches_id_def example_dict_id)
  with fl have "s' \<noteq> example_store" by auto
  with sv have h2: "db (snd (save_activity example_lib (JObj example_route_fields)
        (example_state example_store))) \<noteq> db (example_state example_store)"
    by (simp add: emit_def example_state_def)
  have c2: "(\<exists>built. activity_document example_lib (JObj example_route_fields) = Inr built)"
    by (rule mp [OF conjunct1 [OF conjunct2 [OF T]] h2])
  show ?thesis
    by (rule conjI [OF h1 conjI [OF h2 conjI [OF h3' conjI [OF c1 conjI [OF c2 c3]]]]])
qed

theorem absent_map_counterexample:
  "map_of (example_fields 7 ''Ride'') ''map'' = None
   \<and> activity_document example_lib (JObj (example_fields 7 ''Ride''))
        = Inr (example_document 7 ''Ride'')
   \<and> map_of (example_document 7 ''Ride'') ''map'' = Some (JObj [])
   \<and> map_of (example_document 7 ''Ride'') ''map'' \<noteq> Some JNull"
  using example_activity_document [of 7 "''Ride''"]
  by (simp add: example_fields_def example_document_def example_record_def)

end
